theory Spec2Isabelle
  imports Complex_Main
begin

section \<open>Conventions of the embedding\<close>

text \<open>
  The trading system is written in Python. Its numbers are IEEE doubles; they are
  modelled by \<^typ>\<open>real\<close>, so every statement below is about the exact arithmetic the
  code writes down (no rounding error, no NaN, no infinity). Python dictionaries keep
  insertion order and are iterated in that order; they are association lists with
  distinct keys. An exception is a value of type \<open>error\<close>; a method that mutates its
  object and may raise returns the outcome together with the object as the raise left it.
  Wall-clock reads (\<open>datetime.now()\<close>) and random draws are arguments.
\<close>

datatype error =
  RuntimeError | UnboundLocalError | TypeError | AttributeError | ZeroDivisionError | IndexError

type_synonym symbol = string

text \<open>\<open>d[k] = v\<close>: an existing key keeps its place, a new key goes to the end.\<close>

fun dict_set :: "'k \<Rightarrow> 'v \<Rightarrow> ('k \<times> 'v) list \<Rightarrow> ('k \<times> 'v) list" where
  "dict_set k v [] = [(k, v)]"
| "dict_set k v ((k', v') # d) = (if k = k' then (k, v) # d else (k', v') # dict_set k v d)"

text \<open>\<open>del d[k]\<close> for a key that is present.\<close>

fun dict_del :: "'k \<Rightarrow> ('k \<times> 'v) list \<Rightarrow> ('k \<times> 'v) list" where
  "dict_del k [] = []"
| "dict_del k ((k', v') # d) = (if k = k' then d else (k', v') # dict_del k d)"

definition dict_keys :: "('k \<times> 'v) list \<Rightarrow> 'k list" where
  "dict_keys d = map fst d"

section \<open>Execution engine (app/services/execution_engine.py)\<close>

datatype OrderType =
  MARKET_BUY | MARKET_SELL | LIMIT_BUY | LIMIT_SELL | STOP_BUY | STOP_SELL

datatype OrderStatus = PENDING | FILLED | PARTIALLY_FILLED | CANCELLED | REJECTED

text \<open>
  The dataclass \<open>Order\<close>. The identifier string \<open>ORD_<timestamp>_<counter>\<close> is kept as
  the pair of its two variable parts; times are timestamps.
\<close>

record order =
  ord_id :: "nat \<times> nat"
  ord_symbol :: symbol
  ord_order_type :: OrderType
  ord_side :: string
  ord_quantity :: real
  ord_price :: real
  ord_stop_loss :: real
  ord_take_profit :: real
  ord_status :: OrderStatus
  ord_filled_price :: "real option"
  ord_filled_quantity :: real
  ord_created_at :: "nat option"
  ord_filled_at :: "nat option"
  ord_pnl :: real

text \<open>The dataclass \<open>Position\<close>.\<close>

record position =
  symbol :: symbol
  side :: string
  quantity :: real
  entry_price :: real
  current_price :: real
  stop_loss :: real
  take_profit :: real
  unrealized_pnl :: real
  realized_pnl :: real
  opened_at :: nat

text \<open>The attributes of \<open>ExecutionEngine\<close>.\<close>

record engine =
  paper_trading :: bool
  orders :: "((nat \<times> nat) \<times> order) list"
  positions :: "(symbol \<times> position) list"
  trade_history :: "order list"
  order_counter :: nat
  paper_balance :: real
  paper_equity :: real
  mt5_connected :: bool

text \<open>
  \<open>_execute_paper_order\<close>. \<open>slip\<close> is the draw of \<open>np.random.choice([-1, 1])\<close> and
  \<open>now\<close> the clock. The order object is mutated and appended to the history; the
  position of the order's symbol is created, or updated in place when it exists.
\<close>

definition fill_price_of :: "real \<Rightarrow> order \<Rightarrow> real" where
  "fill_price_of slip ordr = ord_price ordr + ord_price ordr * 0.0001 * slip"

definition execute_paper_order :: "real \<Rightarrow> nat \<Rightarrow> order \<Rightarrow> engine \<Rightarrow> order \<times> engine" where
  "execute_paper_order slip now ordr e =
     (let fill_price = fill_price_of slip ordr;
          ordr' = ordr\<lparr>ord_status := FILLED,
                       ord_filled_price := Some fill_price,
                       ord_filled_quantity := ord_quantity ordr,
                       ord_filled_at := Some now\<rparr>;
          ps = (case map_of (positions e) (ord_symbol ordr) of
                  Some pos \<Rightarrow>
                    dict_set (ord_symbol ordr)
                      (pos\<lparr>quantity := quantity pos + ord_quantity ordr,
                           entry_price := (entry_price pos + fill_price) / 2\<rparr>)
                      (positions e)
                | None \<Rightarrow>
                    dict_set (ord_symbol ordr)
                      \<lparr>symbol = ord_symbol ordr,
                       side = ord_side ordr,
                       quantity = ord_quantity ordr,
                       entry_price = fill_price,
                       current_price = fill_price,
                       stop_loss = ord_stop_loss ordr,
                       take_profit = ord_take_profit ordr,
                       unrealized_pnl = 0,
                       realized_pnl = 0,
                       opened_at = now\<rparr>
                      (positions e))
      in (ordr', e\<lparr>positions := ps, trade_history := trade_history e @ [ordr']\<rparr>))"

text \<open>
  \<open>close_position\<close>: \<open>None\<close> when the symbol has no position, else the realized pnl.
\<close>

definition close_position :: "symbol \<Rightarrow> real \<Rightarrow> engine \<Rightarrow> real option \<times> engine" where
  "close_position sy price e =
     (case map_of (positions e) sy of
        None \<Rightarrow> (None, e)
      | Some pos \<Rightarrow>
          (let pnl = (if side pos = ''BUY''
                      then (price - entry_price pos) * quantity pos
                      else (entry_price pos - price) * quantity pos);
               e1 = (if paper_trading e
                     then e\<lparr>paper_balance := paper_balance e + pnl,
                            paper_equity := paper_balance e + pnl\<rparr>
                     else e)
           in (Some pnl, e1\<lparr>positions := dict_del sy (positions e1)\<rparr>)))"

text \<open>
  The body of the loop of \<open>update_positions\<close> for one item: the position with its new
  current price and unrealized pnl, and whether its stop or target is crossed.
\<close>

definition reprice :: "real \<Rightarrow> position \<Rightarrow> position" where
  "reprice p pos =
     (let pos1 = pos\<lparr>current_price := p\<rparr>
      in if side pos1 = ''BUY''
         then pos1\<lparr>unrealized_pnl := (current_price pos1 - entry_price pos1) * quantity pos1\<rparr>
         else pos1\<lparr>unrealized_pnl := (entry_price pos1 - current_price pos1) * quantity pos1\<rparr>)"

definition crossed :: "position \<Rightarrow> bool" where
  "crossed pos =
     (if side pos = ''BUY''
      then current_price pos \<le> stop_loss pos \<or> current_price pos \<ge> take_profit pos
      else current_price pos \<ge> stop_loss pos \<or> current_price pos \<le> take_profit pos)"

text \<open>
  The loop \<open>for symbol, pos in self.positions.items()\<close>. The items still to be visited
  are the second argument; each \<open>pos\<close> is the object stored in the dictionary, so its
  mutation is a write to the dictionary entry. \<open>close_position\<close> deletes a key of the
  dictionary being iterated: the iterator's next step (also the one that would end the
  loop) then raises \<open>RuntimeError: dictionary changed size during iteration\<close>, and the
  statement after the loop is not reached.
\<close>

fun update_loop ::
  "(symbol \<rightharpoonup> real) \<Rightarrow> (symbol \<times> position) list \<Rightarrow> real \<Rightarrow> engine \<Rightarrow> (error + real) \<times> engine" where
  "update_loop prices [] tot e = (Inr tot, e)"
| "update_loop prices ((sy, pos) # items) tot e =
     (case prices sy of
        None \<Rightarrow> update_loop prices items tot e
      | Some p \<Rightarrow>
          (let pos' = reprice p pos;
               e' = e\<lparr>positions := dict_set sy pos' (positions e)\<rparr>;
               tot' = tot + unrealized_pnl pos'
           in if crossed pos'
              then (Inl RuntimeError, snd (close_position sy (current_price pos') e'))
              else update_loop prices items tot' e'))"

definition update_positions :: "(symbol \<rightharpoonup> real) \<Rightarrow> engine \<Rightarrow> (error + unit) \<times> engine" where
  "update_positions prices e =
     (case update_loop prices (positions e) 0 e of
        (Inl err, e') \<Rightarrow> (Inl err, e')
      | (Inr tot, e') \<Rightarrow> (Inr (), e'\<lparr>paper_equity := paper_balance e' + tot\<rparr>))"

text \<open>
  The engine as \<open>__init__\<close> leaves it in paper mode.
\<close>

definition initial_engine :: engine where
  "initial_engine =
     \<lparr>paper_trading = True, orders = [], positions = [], trade_history = [],
      order_counter = 0, paper_balance = 10000, paper_equity = 10000,
      mt5_connected = False\<rparr>"

section \<open>Python arithmetic helpers\<close>

text \<open>
  \<open>round(x)\<close> rounds to the nearest integer, ties to the even one; \<open>round(x, 2)\<close>
  does the same at the second decimal. \<open>a / b\<close> raises when \<open>b\<close> is zero.
\<close>

definition py_round :: "real \<Rightarrow> int" where
  "py_round x =
     (let f = \<lfloor>x\<rfloor>; d = x - of_int f
      in if d < 1 / 2 then f
         else if d > 1 / 2 then f + 1
         else if even f then f else f + 1)"

definition py_round2 :: "real \<Rightarrow> real" where
  "py_round2 x = of_int (py_round (x * 100)) / 100"

definition py_div :: "real \<Rightarrow> real \<Rightarrow> error + real" where
  "py_div a b = (if b = 0 then Inl ZeroDivisionError else Inr (a / b))"

text \<open>\<open>d.get(k, default)\<close>.\<close>

definition dict_get :: "('k \<rightharpoonup> 'v) \<Rightarrow> 'k \<Rightarrow> 'v \<Rightarrow> 'v" where
  "dict_get d k dflt = (case d k of None \<Rightarrow> dflt | Some v \<Rightarrow> v)"

section \<open>Settings store (app/services/settings_store.py)\<close>

text \<open>
  The keys of \<open>_settings\<close> that the core reads. The dictionary is created with all of
  them and the settings endpoint only overwrites existing keys, so the defaults of the
  \<open>.get\<close> calls are never used. The endpoint stores what it is sent: no value is
  range-checked.
\<close>

record settings =
  risk_per_trade :: real
  ml_threshold :: real
  quant_confidence :: real
  risk_reward_min :: real
  target_risk_reward :: real
  telegram_enabled :: bool
  telegram_chat_id :: string

definition default_settings :: settings where
  "default_settings =
     \<lparr>risk_per_trade = 1, ml_threshold = 60, quant_confidence = 40,
      risk_reward_min = 1.5, target_risk_reward = 1.5, telegram_enabled = True,
      telegram_chat_id = []\<rparr>"

section \<open>Probability estimator and compounding (app/services/ml_engine.py)\<close>

text \<open>
  A local variable of a Python function is unbound until its first assignment; reading
  it before (as \<open>prob += 0.1\<close> does) raises \<open>UnboundLocalError\<close>. The local \<open>prob\<close> of
  \<open>predict_probability\<close> is a \<^typ>\<open>real option\<close>, \<open>None\<close> while unbound.
\<close>

definition read_local :: "real option \<Rightarrow> error + real" where
  "read_local v = (case v of None \<Rightarrow> Inl UnboundLocalError | Some x \<Rightarrow> Inr x)"

definition add_to_local :: "real option \<Rightarrow> real \<Rightarrow> error + real option" where
  "add_to_local v d = (case read_local v of Inl err \<Rightarrow> Inl err | Inr x \<Rightarrow> Inr (Some (x + d)))"

text \<open>
  \<open>predict_probability\<close>. The function body never assigns \<open>prob\<close> before it reads it:
  the local starts unbound.
\<close>

definition predict_probability :: "symbol \<Rightarrow> (string \<rightharpoonup> real) \<Rightarrow> error + real" where
  "predict_probability sy features =
     (let prob0 = None;
          hour = dict_get features ''hour'' 0
      in case (if 8 \<le> hour \<and> hour \<le> 18 then add_to_local prob0 0.1 else Inr prob0) of
           Inl err \<Rightarrow> Inl err
         | Inr prob1 \<Rightarrow>
             (let vol = dict_get features ''volatility'' 0
              in case (if 0.3 < vol \<and> vol < 3.0 then add_to_local prob1 0.1
                       else if vol > 5.0 then add_to_local prob1 (- 0.1)
                       else Inr prob1) of
                   Inl err \<Rightarrow> Inl err
                 | Inr prob2 \<Rightarrow>
                     (case read_local prob2 of
                        Inl err \<Rightarrow> Inl err
                      | Inr p \<Rightarrow> Inr (min 0.95 (max 0.05 p)))))"

text \<open>\<open>calculate_compounding_lot\<close>; \<open>x ** 0.5\<close> is the square root.\<close>

definition calculate_compounding_lot :: "real \<Rightarrow> real \<Rightarrow> real \<Rightarrow> real" where
  "calculate_compounding_lot lot equity drawdown =
     (let growth_factor = (if equity > 10000 then sqrt (equity / 10000) else 1);
          growth_factor' = (if drawdown > 2.0 then growth_factor * (1 - drawdown / 100)
                            else growth_factor)
      in py_round2 (lot * growth_factor'))"

section \<open>Position sizing (app/services/risk_manager.py)\<close>

text \<open>What \<open>mt5.symbol_info\<close> returns, as far as the sizer reads it.\<close>

record symbol_info =
  trade_tick_value :: real
  trade_tick_size :: real
  volume_min :: real
  volume_max :: real
  volume_step :: real

definition base_lot :: real where
  "base_lot = 0.01"

text \<open>
  The body of the \<open>try\<close> block of \<open>calculate_lot_size\<close>. \<open>account\<close> is the equity of
  \<open>mt5.account_info()\<close> (\<open>None\<close> when the terminal gives no account), \<open>info\<close> the result
  of \<open>mt5.symbol_info(symbol)\<close>.
\<close>

definition lot_size_body ::
  "settings \<Rightarrow> real option \<Rightarrow> symbol_info option \<Rightarrow> real \<Rightarrow> real \<Rightarrow> error + real" where
  "lot_size_body st account info entry stop =
     (let max_position_risk = risk_per_trade st / 100
      in case account of
           None \<Rightarrow> Inr base_lot
         | Some equity \<Rightarrow>
             (let risk_amount = equity * max_position_risk;
                  distance = \<bar>entry - stop\<bar>
              in if distance \<le> 0 then Inr base_lot
                 else
                   (case info of
                      None \<Rightarrow> Inr base_lot
                    | Some si \<Rightarrow>
                        (if trade_tick_value si = 0 \<or> trade_tick_size si = 0 then Inr base_lot
                         else
                           (case py_div risk_amount
                                   (distance / trade_tick_size si * trade_tick_value si) of
                              Inl err \<Rightarrow> Inl err
                            | Inr lots \<Rightarrow>
                                (let lots1 = max (volume_min si) (min (volume_max si) lots);
                                     step = volume_step si
                                 in (case py_div lots1 step of
                                       Inl err \<Rightarrow> Inl err
                                     | Inr q \<Rightarrow>
                                         Inr (py_round2 (of_int (py_round q) * step)))))))))"

text \<open>\<open>calculate_lot_size\<close>: any exception of the body is logged and replaced by the base lot.\<close>

definition calculate_lot_size ::
  "settings \<Rightarrow> real option \<Rightarrow> symbol_info option \<Rightarrow> real \<Rightarrow> real \<Rightarrow> real" where
  "calculate_lot_size st account info entry stop =
     (case lot_size_body st account info entry stop of
        Inl err \<Rightarrow> base_lot
      | Inr lots \<Rightarrow> lots)"

section \<open>Advisory service (app/services/ai_agent.py)\<close>

record agent =
  model :: string
  ollama_ready :: bool
  loaded_models :: "string list"

text \<open>What the request to the tags endpoint can give \<open>_check_ollama_health\<close>.\<close>

datatype probe = TagsOk "string list" | TagsBadStatus | TagsUnreachable

definition check_ollama_health :: "probe \<Rightarrow> agent \<Rightarrow> agent" where
  "check_ollama_health pr ag =
     (case pr of
        TagsOk names \<Rightarrow> ag\<lparr>loaded_models := names, ollama_ready := (names \<noteq> [])\<rparr>
      | TagsBadStatus \<Rightarrow> ag\<lparr>ollama_ready := False\<rparr>
      | TagsUnreachable \<Rightarrow> ag\<lparr>ollama_ready := False\<rparr>)"

text \<open>
  The dictionary \<open>validate_signal\<close> returns; a key the model's JSON leaves out is \<open>None\<close>.
\<close>

record advice =
  adv_decision :: "string option"
  adv_confidence :: "real option"
  adv_reason :: "string option"

text \<open>
  What the generate endpoint can give: a JSON object, text that is not JSON, a status
  other than 200, or a failure (a request exception, or a reply the logging lines
  cannot format), which the handlers turn into the fallback.
\<close>

datatype llm_reply = LlmJson advice | LlmText string | LlmBadStatus | LlmFailure

definition upper_char :: "char \<Rightarrow> char" where
  "upper_char c =
     (let n = (of_char c :: nat) in if 97 \<le> n \<and> n \<le> 122 then char_of (n - 32) else c)"

fun contains :: "string \<Rightarrow> string \<Rightarrow> bool" where
  "contains pat [] = (pat = [])"
| "contains pat (c # cs) = (take (length pat) (c # cs) = pat \<or> contains pat cs)"

definition hold :: "string \<Rightarrow> advice" where
  "hold why = \<lparr>adv_decision = Some ''HOLD'', adv_confidence = Some 0, adv_reason = Some why\<rparr>"

definition approve_from_text :: "string \<Rightarrow> advice" where
  "approve_from_text d =
     \<lparr>adv_decision = Some d, adv_confidence = Some 0.5,
      adv_reason = Some ''AI approved (parsed from text)''\<rparr>"

text \<open>
  \<open>validate_signal\<close>. The signal summary and the regime only go into the prompt; the
  reply to that prompt is the argument \<open>reply\<close>, the reply to a health re-check \<open>pr\<close>.
\<close>

definition validate_signal :: "probe \<Rightarrow> llm_reply \<Rightarrow> agent \<Rightarrow> advice \<times> agent" where
  "validate_signal pr reply ag =
     (if \<not> ollama_ready ag
      then (hold ''AI Brain offline - Ollama models not loaded. Cannot validate signal.'', ag)
      else
        (let ag' = (if model ag \<notin> set (loaded_models ag) then check_ollama_health pr ag else ag)
         in if model ag \<notin> set (loaded_models ag) \<and> model ag' \<notin> set (loaded_models ag')
            then (hold ''Model not available'', ag')
            else
              (case reply of
                 LlmJson validation \<Rightarrow> (validation, ag')
               | LlmText result \<Rightarrow>
                   (if contains ''BUY'' (map upper_char result)
                    then (approve_from_text ''BUY'', ag')
                    else if contains ''SELL'' (map upper_char result)
                    then (approve_from_text ''SELL'', ag')
                    else (hold ''AI response unclear'', ag'))
               | LlmBadStatus \<Rightarrow>
                   (hold ''AI validation failed - cannot proceed without AI Brain approval.'', ag')
               | LlmFailure \<Rightarrow>
                   (hold ''AI validation failed - cannot proceed without AI Brain approval.'', ag'))))"

section \<open>Validation pipeline (app/services/auto_trader.py)\<close>

text \<open>The dataclass \<open>SignalStrength\<close> of the quant engine.\<close>

record signal =
  sig_direction :: string
  sig_confidence :: real
  sig_entry_price :: real
  sig_stop_loss :: real
  sig_take_profit_1 :: real
  sig_take_profit_2 :: real
  sig_take_profit_3 :: real
  sig_risk_reward :: real
  sig_strategy :: string
  sig_reasoning :: "string list"

text \<open>
  The stages of \<open>_analyze_market\<close> that can block a signal (steps 2 to 7 of its
  comments), under the names the specification gives them.
\<close>

datatype stage =
  CONFIDENCE_CHECK | RISK_REWARD_CHECK | ADVISOR_CHECK | PROBABILITY_CHECK
  | NEWS_CHECK | LIQUIDITY_CHECK

text \<open>
  What one evaluation does to the outside, in order: a dashboard log line (with its
  source tag), a call to a collaborator, an order handed to the execution engine, the
  cooldown stamp of the symbol.
\<close>

datatype event =
  Broadcast string | AdvisorCall | ProbabilityCall | NewsCall | TelegramNotify
  | LivePriceCall | AccountCall | LotSizeCall | OrderPlaced | CooldownSet

text \<open>
  How one evaluation ends: no signal to evaluate, a \<open>return\<close> inside a stage, an
  exception caught by the handler around the analysis, or one of the ends of
  \<open>_execute_trade\<close>.
\<close>

datatype outcome =
  NoSignal | Rejected stage | AnalysisError error | TradeSkipped | TradeFailed error

text \<open>
  What the collaborators answer during one evaluation: the regime label, the replies of
  the advisory endpoints, the two features, the news calendar's verdict, the live tick
  (bid, ask), the 14-bar range, the account dictionary (its values are \<open>None\<close> when the
  gateway is disconnected) and what the terminal tells the sizer.
\<close>

record market =
  regime :: string
  health_probe :: probe
  llm :: llm_reply
  hour :: real
  volatility :: real
  news_stop :: bool
  live_tick :: "(real \<times> real) option"
  atr_range :: real
  account_balance :: "real option"
  account_equity :: "real option"
  mt5_account_equity :: "real option"
  mt5_symbol_info :: "symbol_info option"

text \<open>
  Binding the keyword arguments of a call to the parameters of the callee: Python raises
  \<open>TypeError\<close> when a parameter without default gets no argument or a keyword names
  no parameter. \<open>place_order\<close> is declared with the parameters \<open>symbol, side, quantity,
  price, stop_loss, take_profit\<close> and the optional \<open>order_type\<close>.
\<close>

definition bind_keywords :: "string list \<Rightarrow> string list \<Rightarrow> string list \<Rightarrow> error + unit" where
  "bind_keywords required optional given =
     (if set given \<subseteq> set (required @ optional) \<and> set required \<subseteq> set given
      then Inr () else Inl TypeError)"

definition place_order_required :: "string list" where
  "place_order_required =
     [''symbol'', ''side'', ''quantity'', ''price'', ''stop_loss'', ''take_profit'']"

definition place_order_optional :: "string list" where
  "place_order_optional = [''order_type'']"

text \<open>
  \<open>_execute_trade\<close>. A lot that is not positive returns before anything is sent. The
  call of \<open>place_order\<close> passes the keywords \<open>symbol, order_type, quantity, stop_loss,
  take_profit\<close>; had the call been bound, the order would be placed and the next line
  would read \<open>result.get\<close> on the returned dataclass, which has no such attribute.
  Every exception is caught and reported.
\<close>

definition execute_trade :: "symbol \<Rightarrow> signal \<Rightarrow> real \<Rightarrow> outcome \<times> event list" where
  "execute_trade sy sg lots =
     (if lots \<le> 0 then (TradeSkipped, [])
      else
        (case bind_keywords place_order_required place_order_optional
                [''symbol'', ''order_type'', ''quantity'', ''stop_loss'', ''take_profit''] of
           Inl err \<Rightarrow> (TradeFailed err, [Broadcast ''BOT'', Broadcast ''ERROR''])
         | Inr u \<Rightarrow>
             (TradeFailed AttributeError, [Broadcast ''BOT'', OrderPlaced, Broadcast ''ERROR''])))"

text \<open>
  Step 8: sizing and execution. A \<open>None\<close> balance or equity makes the drawdown or the
  compounding comparison raise \<open>TypeError\<close>.
\<close>

definition sizing_stage ::
  "settings \<Rightarrow> market \<Rightarrow> symbol \<Rightarrow> signal \<Rightarrow> event list \<Rightarrow> outcome \<times> event list" where
  "sizing_stage st env sy sg t =
     (let t1 = t @ [AccountCall, Broadcast ''EXEC'', LotSizeCall];
          lot = calculate_lot_size st (mt5_account_equity env) (mt5_symbol_info env)
                  (sig_entry_price sg) (sig_stop_loss sg)
      in (case account_balance env of
            None \<Rightarrow> (AnalysisError TypeError, t1)
          | Some balance \<Rightarrow>
              (case account_equity env of
                 None \<Rightarrow> (AnalysisError TypeError, t1)
               | Some equity \<Rightarrow>
                   (let drawdown = (if balance > 0 then (balance - equity) / balance * 100 else 0);
                        final_lot = calculate_compounding_lot lot equity drawdown;
                        t2 = (if final_lot > lot then t1 @ [Broadcast ''GROWTH''] else t1);
                        (res, t3) = execute_trade sy sg final_lot
                    in (res, t2 @ t3 @ [CooldownSet])))))"

text \<open>Step 7: spread protection.\<close>

definition liquidity_stage ::
  "settings \<Rightarrow> market \<Rightarrow> symbol \<Rightarrow> signal \<Rightarrow> event list \<Rightarrow> outcome \<times> event list" where
  "liquidity_stage st env sy sg t =
     (let t1 = t @ [Broadcast ''RISK'', LivePriceCall];
          blocked = (case live_tick env of
                       None \<Rightarrow> False
                     | Some (bid, ask) \<Rightarrow>
                         (let spread = ask - bid; atr = atr_range env
                          in atr > 0 \<and> spread > 0.3 * atr))
      in if blocked then (Rejected LIQUIDITY_CHECK, t1 @ [Broadcast ''RISK''])
         else sizing_stage st env sy sg (t1 @ [Broadcast ''RISK'']))"

text \<open>Step 6: news filter.\<close>

definition news_stage ::
  "settings \<Rightarrow> market \<Rightarrow> symbol \<Rightarrow> signal \<Rightarrow> event list \<Rightarrow> outcome \<times> event list" where
  "news_stage st env sy sg t =
     (let t1 = t @ [Broadcast ''NEWS'', NewsCall]
      in if news_stop env
         then (Rejected NEWS_CHECK,
               t1 @ [Broadcast ''NEWS''] @
               (if telegram_enabled st \<and> telegram_chat_id st \<noteq> [] then [TelegramNotify] else []))
         else liquidity_stage st env sy sg (t1 @ [Broadcast ''NEWS'']))"

text \<open>
  Step 5: probability check. The estimator \<open>est\<close> stands for
  \<open>ml_engine.predict_probability\<close>, so that the stages can also be read with an
  estimator that answers.
\<close>

type_synonym estimator = "symbol \<Rightarrow> (string \<rightharpoonup> real) \<Rightarrow> error + real"

definition probability_stage ::
  "estimator \<Rightarrow> settings \<Rightarrow> market \<Rightarrow> symbol \<Rightarrow> signal \<Rightarrow> real \<Rightarrow> event list
     \<Rightarrow> outcome \<times> event list" where
  "probability_stage est st env sy sg ai_confidence t =
     (let features = [''hour'' \<mapsto> hour env, ''volatility'' \<mapsto> volatility env];
          threshold = ml_threshold st / 100;
          t1 = t @ [ProbabilityCall]
      in (case est sy features of
            Inl err \<Rightarrow> (AnalysisError err, t1)
          | Inr prob0 \<Rightarrow>
              (let prob = (if ai_confidence > 0.8 then min 0.95 (prob0 + 0.05) else prob0)
               in if prob < threshold then (Rejected PROBABILITY_CHECK, t1 @ [Broadcast ''ML''])
                  else news_stage st env sy sg (t1 @ [Broadcast ''ML'']))))"

text \<open>
  \<open>_analyze_market\<close> from the point where the signal generator has answered (the
  connection, open-position, cooldown and data guards before it are not part of the
  pipeline). The result is the outcome, the events in order and the agent, whose
  health flags a re-check may have changed.
\<close>

definition analyze_market_with ::
  "estimator \<Rightarrow> settings \<Rightarrow> market \<Rightarrow> agent \<Rightarrow> symbol \<Rightarrow> signal option
     \<Rightarrow> outcome \<times> event list \<times> agent" where
  "analyze_market_with est st env ag sy sgo =
     (case sgo of
        None \<Rightarrow> (NoSignal, [], ag)
      | Some sg \<Rightarrow>
          (if sig_direction sg = ''NEUTRAL'' then (NoSignal, [], ag)
           else
             (let min_confidence = quant_confidence st / 100;
                  min_risk_reward = risk_reward_min st;
                  t0 = [Broadcast ''QUANT'']
              in if sig_confidence sg < min_confidence
                 then (Rejected CONFIDENCE_CHECK, t0 @ [Broadcast ''QUANT''], ag)
                 else if sig_risk_reward sg < min_risk_reward - 0.01
                 then (Rejected RISK_REWARD_CHECK, t0 @ [Broadcast ''RISK''], ag)
                 else
                   (let t1 = t0 @ [Broadcast ''BRAIN'', AdvisorCall];
                        (ai_decision, ag') = validate_signal (health_probe env) (llm env) ag;
                        ai_confidence = (case adv_confidence ai_decision of
                                           None \<Rightarrow> 0 | Some c \<Rightarrow> c);
                        ai_decision_type = (case adv_decision ai_decision of
                                              None \<Rightarrow> ''HOLD'' | Some d \<Rightarrow> d)
                    in if ai_confidence < 0.5 \<or> ai_decision_type = ''HOLD''
                       then (Rejected ADVISOR_CHECK, t1 @ [Broadcast ''BRAIN''], ag')
                       else if ai_decision_type \<noteq> sig_direction sg
                       then (Rejected ADVISOR_CHECK, t1 @ [Broadcast ''BRAIN''], ag')
                       else
                         (let (res, t2) = probability_stage est st env sy sg ai_confidence
                                            (t1 @ [Broadcast ''BRAIN''])
                          in (res, t2, ag'))))))"

text \<open>The pipeline as the code runs it, on the estimator of the ML engine.\<close>

definition analyze_market ::
  "settings \<Rightarrow> market \<Rightarrow> agent \<Rightarrow> symbol \<Rightarrow> signal option \<Rightarrow> outcome \<times> event list \<times> agent" where
  "analyze_market = analyze_market_with predict_probability"

text \<open>
  The stage an event belongs to, for the events that are calls to collaborators, and the
  position of a stage in the sequence; calls of the sizing and execution step come
  after every stage.
\<close>

fun stage_rank :: "stage \<Rightarrow> nat" where
  "stage_rank CONFIDENCE_CHECK = 1"
| "stage_rank RISK_REWARD_CHECK = 2"
| "stage_rank ADVISOR_CHECK = 3"
| "stage_rank PROBABILITY_CHECK = 4"
| "stage_rank NEWS_CHECK = 5"
| "stage_rank LIQUIDITY_CHECK = 6"

fun call_rank :: "event \<Rightarrow> nat" where
  "call_rank (Broadcast src) = 0"
| "call_rank AdvisorCall = 3"
| "call_rank ProbabilityCall = 4"
| "call_rank NewsCall = 5"
| "call_rank TelegramNotify = 5"
| "call_rank LivePriceCall = 6"
| "call_rank AccountCall = 7"
| "call_rank LotSizeCall = 7"
| "call_rank OrderPlaced = 7"
| "call_rank CooldownSet = 7"

section \<open>Indicators and signal levels (app/services/quant_engine.py)\<close>

text \<open>
  numpy arrays are lists. \<open>np.diff\<close>, \<open>np.mean\<close>, and the smoothing that
  \<open>calculate_rsi\<close> and \<open>calculate_atr\<close> share: an array of zeros whose entry
  \<open>period\<close> is the mean of the first \<open>period\<close> inputs and whose entry \<open>i > period\<close> is
  \<open>(previous * (period - 1) + input[i-1]) / period\<close>.
\<close>

fun diff :: "real list \<Rightarrow> real list" where
  "diff [] = []"
| "diff [x] = []"
| "diff (x # y # xs) = (y - x) # diff (y # xs)"

definition mean :: "real list \<Rightarrow> real" where
  "mean xs = sum_list xs / real (length xs)"

fun wilder :: "nat \<Rightarrow> real \<Rightarrow> real list \<Rightarrow> real list" where
  "wilder period prev [] = []"
| "wilder period prev (x # xs) =
     (let a = (prev * (real period - 1) + x) / real period in a # wilder period a xs)"

definition smoothed :: "nat \<Rightarrow> real list \<Rightarrow> real list" where
  "smoothed period xs =
     (let seed = mean (take period xs)
      in replicate period 0 @ seed # wilder period seed (drop period xs))"

text \<open>
  \<open>calculate_rsi\<close>. Writing entry \<open>period\<close> of an array as long as the data raises
  \<open>IndexError\<close> when the data has at most \<open>period\<close> points. With period 0 numpy takes
  the mean of an empty slice and fills the result with NaN, which no real number
  models: that case is reported as \<open>NotANumber\<close>. The average gain and loss are never
  negative, so \<open>1 + rs\<close> is never zero.
\<close>

datatype 'a computed = Raised error | NotANumber | Value 'a

definition rsi_of :: "real \<Rightarrow> real \<Rightarrow> real" where
  "rsi_of avg_gain avg_loss =
     (let rs = (if avg_loss \<noteq> 0 then avg_gain / avg_loss else 100)
      in 100 - 100 / (1 + rs))"

definition calculate_rsi :: "real list \<Rightarrow> nat \<Rightarrow> real list computed" where
  "calculate_rsi data period =
     (let deltas = diff data;
          gains = map (\<lambda>d. if d > 0 then d else 0) deltas;
          losses = map (\<lambda>d. if d < 0 then - d else 0) deltas
      in if length data \<le> period then Raised IndexError
         else if period = 0 then NotANumber
         else Value (map2 rsi_of (smoothed period gains) (smoothed period losses)))"

text \<open>
  \<open>calculate_atr\<close> on the high, low and close columns of one frame, given as the list
  of its rows \<open>(high, low, close)\<close>.
\<close>

fun true_range :: "(real \<times> real \<times> real) list \<Rightarrow> real list" where
  "true_range [] = []"
| "true_range [b] = []"
| "true_range ((h0, l0, c0) # (h, l, c) # bars) =
     max (h - l) (max \<bar>h - c0\<bar> \<bar>l - c0\<bar>) # true_range ((h, l, c) # bars)"

definition calculate_atr :: "(real \<times> real \<times> real) list \<Rightarrow> nat \<Rightarrow> real list computed" where
  "calculate_atr bars period =
     (if length bars \<le> period then Raised IndexError
      else if period = 0 then NotANumber
      else Value (smoothed period (true_range bars)))"

datatype MarketRegime = TRENDING_STRONG | TRENDING_WEAK | RANGING | VOLATILE | BREAKOUT

text \<open>The six scores of \<open>generate_signal\<close> and its three random draws.\<close>

record scores =
  trend_score :: int
  rsi_score :: int
  macd_score :: int
  bb_score :: int
  volume_score :: int
  pattern_score :: int

record draws =
  confidence_jitter :: real
  entropy :: real
  pick :: nat

definition sl_multiplier :: "MarketRegime \<Rightarrow> real" where
  "sl_multiplier r =
     (if r = TRENDING_STRONG then 1.5
      else if r = TRENDING_WEAK then 2.0
      else if r = BREAKOUT then 2.5
      else 1.5)"

definition active_strategies :: "scores \<Rightarrow> real \<Rightarrow> string list" where
  "active_strategies sc conf =
     (if \<bar>trend_score sc\<bar> > 0 then [''Cortex Trend Guard''] else []) @
     (if \<bar>rsi_score sc\<bar> > 0 then [''Oversold Mean Revert''] else []) @
     (if \<bar>macd_score sc\<bar> > 0 then [''MACD Divergence Hunter''] else []) @
     (if \<bar>bb_score sc\<bar> > 0 then [''Price Action Scalper''] else []) @
     (if \<bar>volume_score sc\<bar> > 0 then [''Smart Money Flow''] else []) @
     (if conf > 0.8
      then [''Fibonacci Retrace Alpha'', ''Harmonic Bat Pattern'', ''Volvo Breakout'']
      else [])"

text \<open>The ensemble score: the sum of the six scores.\<close>

definition ensemble_score :: "scores \<Rightarrow> int" where
  "ensemble_score sc =
     trend_score sc + rsi_score sc + macd_score sc + bb_score sc
     + volume_score sc + pattern_score sc"

text \<open>
  \<open>generate_signal\<close> from the ensemble scoring to the returned \<open>SignalStrength\<close>. The
  indicator part of the function has produced the regime, the scores, the last close
  \<open>cur_price\<close>, the last ATR value \<open>atr_current\<close> and the reasons collected so far;
  the minimum score is 1 in every regime. \<open>None\<close> is the return without a signal. The
  formatted numbers inside the appended reasons are left out.
\<close>

definition generate_signal ::
  "settings \<Rightarrow> MarketRegime \<Rightarrow> scores \<Rightarrow> real \<Rightarrow> real \<Rightarrow> draws \<Rightarrow> string list \<Rightarrow> signal option" where
  "generate_signal st rg sc cur_price atr_current dr reasoning =
     (let min_score_threshold = 1;
          total_score = ensemble_score sc
      in if \<bar>total_score\<bar> < min_score_threshold then None
         else
           (let direction = (if total_score > 0 then ''BUY'' else ''SELL'');
                raw_confidence = min (real_of_int \<bar>total_score\<bar> / 5) 1;
                confidence = min (py_round2 (raw_confidence * confidence_jitter dr)) 1;
                target_rr = target_risk_reward st;
                sl_mult = sl_multiplier rg;
                tp2_mult = sl_mult * target_rr;
                tp1_mult = tp2_mult * 0.75;
                tp3_mult = tp2_mult * 1.5;
                e = entropy dr;
                sl = (if direction = ''BUY'' then cur_price - atr_current * sl_mult * e
                      else cur_price + atr_current * sl_mult * e);
                tp1 = (if direction = ''BUY'' then cur_price + atr_current * tp1_mult * e
                       else cur_price - atr_current * tp1_mult * e);
                tp2 = (if direction = ''BUY'' then cur_price + atr_current * tp2_mult * e
                       else cur_price - atr_current * tp2_mult * e);
                tp3 = (if direction = ''BUY'' then cur_price + atr_current * tp3_mult * e
                       else cur_price - atr_current * tp3_mult * e);
                risk = \<bar>cur_price - sl\<bar>;
                reward = \<bar>tp2 - cur_price\<bar>;
                risk_reward = (if risk > 0 then reward / risk else 0);
                strategies = active_strategies sc confidence;
                primary_strategy = (if strategies \<noteq> []
                                    then strategies ! (pick dr mod length strategies)
                                    else ''Cortex Trend Guard'')
            in Some \<lparr>sig_direction = direction,
                     sig_confidence = confidence,
                     sig_entry_price = cur_price,
                     sig_stop_loss = sl,
                     sig_take_profit_1 = tp1,
                     sig_take_profit_2 = tp2,
                     sig_take_profit_3 = tp3,
                     sig_risk_reward = risk_reward,
                     sig_strategy = primary_strategy,
                     sig_reasoning = reasoning @ [''Risk:Reward'', ''Strat: '' @ primary_strategy]\<rparr>))"

section \<open>Backtest statistics (app/services/backtest_engine.py)\<close>

datatype TradeDirection = LONG | SHORT

text \<open>The dataclass \<open>Trade\<close>; times are timestamps.\<close>

record trade =
  tr_entry_time :: nat
  tr_exit_time :: "nat option"
  tr_direction :: TradeDirection
  tr_entry_price :: real
  tr_exit_price :: "real option"
  tr_size :: real
  tr_stop_loss :: real
  tr_take_profit :: real
  tr_pnl :: real
  tr_pnl_pips :: real
  tr_status :: string

text \<open>
  The fields of \<open>BacktestResult\<close> that \<open>_calculate_results\<close> computes from the closed
  trades. The fields it computes from the equity curve (drawdown, Sharpe, Sortino) are
  not modelled.
\<close>

record trade_stats =
  total_trades :: nat
  winning_trades :: nat
  losing_trades :: nat
  win_rate :: real
  total_pnl :: real
  profit_factor :: real
  avg_win :: real
  avg_loss :: real
  largest_win :: real
  largest_loss :: real

definition calculate_results :: "trade list \<Rightarrow> trade_stats" where
  "calculate_results trades =
     (if trades = []
      then \<lparr>total_trades = 0, winning_trades = 0, losing_trades = 0, win_rate = 0,
            total_pnl = 0, profit_factor = 0, avg_win = 0, avg_loss = 0,
            largest_win = 0, largest_loss = 0\<rparr>
      else
        (let pnls = map tr_pnl trades;
             wins = filter (\<lambda>p. p > 0) pnls;
             losses = filter (\<lambda>p. p < 0) pnls;
             gross_profit = (if wins \<noteq> [] then sum_list wins else 0);
             gross_loss = (if losses \<noteq> [] then \<bar>sum_list losses\<bar> else 1)
         in \<lparr>total_trades = length trades,
             winning_trades = length wins,
             losing_trades = length losses,
             win_rate = real (length wins) / real (length trades) * 100,
             total_pnl = sum_list pnls,
             profit_factor = (if gross_loss > 0 then gross_profit / gross_loss else 0),
             avg_win = (if wins \<noteq> [] then mean wins else 0),
             avg_loss = (if losses \<noteq> [] then mean losses else 0),
             largest_win = (if wins \<noteq> [] then fold max (tl wins) (hd wins) else 0),
             largest_loss = (if losses \<noteq> [] then fold min (tl losses) (hd losses) else 0)\<rparr>))"

section \<open>Reference quantities and concrete inputs\<close>

text \<open>
  Gross profit and gross loss of a list of closed trades, as the specification names
  them: the sum of the positive and the sum of the negative pnls.
\<close>

definition gross_profit :: "trade list \<Rightarrow> real" where
  "gross_profit trades = sum_list (filter (\<lambda>p. p > 0) (map tr_pnl trades))"

definition gross_loss :: "trade list \<Rightarrow> real" where
  "gross_loss trades = sum_list (filter (\<lambda>p. p < 0) (map tr_pnl trades))"

text \<open>
  A long position of 1000 units with its stop 0.01 below and its target 0.02 above the
  entry, and two engines holding such positions.
\<close>

definition long_position :: "symbol \<Rightarrow> real \<Rightarrow> position" where
  "long_position s entry =
     \<lparr>symbol = s, side = ''BUY'', quantity = 1000, entry_price = entry,
      current_price = entry, stop_loss = entry - 0.01, take_profit = entry + 0.02,
      unrealized_pnl = 0, realized_pnl = 0, opened_at = 0\<rparr>"

definition engine_one :: engine where
  "engine_one = initial_engine\<lparr>positions := [(''EURUSD'', long_position ''EURUSD'' 1.10)]\<rparr>"

definition engine_two :: engine where
  "engine_two =
     initial_engine\<lparr>positions :=
       [(''EURUSD'', long_position ''EURUSD'' 1.10),
        (''GBPUSD'', long_position ''GBPUSD'' 1.30)]\<rparr>"

text \<open>Prices at which both positions of \<open>engine_two\<close> are beyond their targets.\<close>

definition both_above_target :: "symbol \<rightharpoonup> real" where
  "both_above_target = [''EURUSD'' \<mapsto> 1.13, ''GBPUSD'' \<mapsto> 1.33]"

text \<open>A second order on a symbol that is already held, with a side and levels of its own.\<close>

definition add_order :: order where
  "add_order =
     \<lparr>ord_id = (0, 1), ord_symbol = ''EURUSD'', ord_order_type = MARKET_SELL,
      ord_side = ''SELL'', ord_quantity = 500, ord_price = 1.2, ord_stop_loss = 1.3,
      ord_take_profit = 1.0, ord_status = PENDING, ord_filled_price = None,
      ord_filled_quantity = 0, ord_created_at = Some 0, ord_filled_at = None, ord_pnl = 0\<rparr>"

text \<open>An agent whose service is down, one that is up, a strong and a weak signal, a market.\<close>

definition offline_agent :: agent where
  "offline_agent = \<lparr>model = ''llama3.1:8b'', ollama_ready = False, loaded_models = []\<rparr>"

definition online_agent :: agent where
  "online_agent =
     \<lparr>model = ''llama3.1:8b'', ollama_ready = True, loaded_models = [''llama3.1:8b'']\<rparr>"

definition strong_signal :: signal where
  "strong_signal =
     \<lparr>sig_direction = ''BUY'', sig_confidence = 1, sig_entry_price = 1.1,
      sig_stop_loss = 1.098, sig_take_profit_1 = 1.10225, sig_take_profit_2 = 1.103,
      sig_take_profit_3 = 1.1045, sig_risk_reward = 1.5, sig_strategy = ''Cortex Trend Guard'',
      sig_reasoning = []\<rparr>"

definition weak_signal :: signal where
  "weak_signal = strong_signal\<lparr>sig_confidence := 0.2\<rparr>"

definition approving_market :: market where
  "approving_market =
     \<lparr>regime = ''RANGING'', health_probe = TagsOk [''llama3.1:8b''],
      llm = LlmJson \<lparr>adv_decision = Some ''BUY'', adv_confidence = Some 0.9,
                     adv_reason = Some ''ok''\<rparr>,
      hour = 10, volatility = 1, news_stop = False, live_tick = Some (1.1, 1.1001),
      atr_range = 0.002, account_balance = Some 10000, account_equity = Some 10000,
      mt5_account_equity = Some 10000, mt5_symbol_info = None\<rparr>"

text \<open>
  Two instruments: one traded in steps of 0.01 lot between 0.01 and 100 lots, one in
  steps of 0.001 lot from 0.001 lot on.
\<close>

definition standard_info :: symbol_info where
  "standard_info =
     \<lparr>trade_tick_value = 1, trade_tick_size = 0.00001, volume_min = 0.01,
      volume_max = 100, volume_step = 0.01\<rparr>"

definition fine_step_info :: symbol_info where
  "fine_step_info =
     \<lparr>trade_tick_value = 1, trade_tick_size = 0.00001, volume_min = 0.001,
      volume_max = 100, volume_step = 0.001\<rparr>"

text \<open>
  Scores of a market that does not move (only the VWAP and RSI scores are set, both
  bearish), scores of an uptrend, and draws that leave confidence and levels as they are.
\<close>

definition flat_scores :: scores where
  "flat_scores =
     \<lparr>trend_score = 0, rsi_score = - 1, macd_score = 0, bb_score = 0,
      volume_score = - 1, pattern_score = 0\<rparr>"

definition up_scores :: scores where
  "up_scores =
     \<lparr>trend_score = 2, rsi_score = 0, macd_score = 0, bb_score = 0,
      volume_score = 1, pattern_score = 0\<rparr>"

definition unit_draws :: draws where
  "unit_draws = \<lparr>confidence_jitter = 1, entropy = 1, pick = 0\<rparr>"

definition up_signal :: signal where
  "up_signal =
     \<lparr>sig_direction = ''BUY'', sig_confidence = 0.6, sig_entry_price = 1.1,
      sig_stop_loss = 1.098, sig_take_profit_1 = 1.10225, sig_take_profit_2 = 1.103,
      sig_take_profit_3 = 1.1045, sig_risk_reward = 1.5, sig_strategy = ''Cortex Trend Guard'',
      sig_reasoning = [''Risk:Reward'', ''Strat: Cortex Trend Guard'']\<rparr>"

text \<open>A closed long trade with a given pnl.\<close>

definition closed_trade :: "real \<Rightarrow> trade" where
  "closed_trade p =
     \<lparr>tr_entry_time = 0, tr_exit_time = Some 1, tr_direction = LONG, tr_entry_price = 1,
      tr_exit_price = Some (1 + p / 100), tr_size = 100, tr_stop_loss = 0, tr_take_profit = 10,
      tr_pnl = p, tr_pnl_pips = \<bar>p / 100\<bar> * 10000, tr_status = ''CLOSED''\<rparr>"

text \<open>
  What a refresh without closes leaves behind: every position that has a price is
  repriced in place, and the unrealized pnls of the priced positions add up.
\<close>

definition refresh :: "(symbol \<rightharpoonup> real) \<Rightarrow> symbol \<times> position \<Rightarrow> symbol \<times> position" where
  "refresh prices item =
     (case prices (fst item) of None \<Rightarrow> item | Some p \<Rightarrow> (fst item, reprice p (snd item)))"

definition priced_pnl :: "(symbol \<rightharpoonup> real) \<Rightarrow> (symbol \<times> position) list \<Rightarrow> real" where
  "priced_pnl prices items =
     sum_list (map (\<lambda>item. case prices (fst item) of
                               None \<Rightarrow> 0
                             | Some p \<Rightarrow> unrealized_pnl (reprice p (snd item))) items)"

section \<open>Execution engine: closing, merging and refreshing positions\<close>

lemma map_of_dict_set_same: "map_of (dict_set k v d) k = Some v"
  by (induction d) auto

lemma map_of_dict_set_other: "k' \<noteq> k \<Longrightarrow> map_of (dict_set k v d) k' = map_of d k'"
  by (induction d) auto

lemma dict_keys_dict_set:
  "map_of d k = Some v' \<Longrightarrow> dict_keys (dict_set k v d) = dict_keys d"
  by (induction d) (auto simp: dict_keys_def)

text \<open>
  Whenever the loop of \<open>update_positions\<close> meets a position whose new price is beyond
  its stop or target, the call ends with \<open>RuntimeError\<close>: the close removes a key from
  the dictionary under iteration.
\<close>

lemma update_loop_raises:
  assumes "(s, pos) \<in> set items" and "prices s = Some p" and "crossed (reprice p pos)"
  shows "fst (update_loop prices items tot e) = Inl RuntimeError"
  using assms
proof (induction items arbitrary: tot e)
  case Nil
  then show ?case by simp
next
  case (Cons it items)
  obtain s' pos' where it: "it = (s', pos')" by (cases it)
  show ?case
  proof (cases "prices s'")
    case None
    with Cons it show ?thesis by auto
  next
    case (Some q)
    with Cons it show ?thesis by (auto simp: Let_def)
  qed
qed

lemma update_positions_raises:
  assumes "(s, pos) \<in> set (positions e)" and "prices s = Some p"
      and "crossed (reprice p pos)"
  shows "fst (update_positions prices e) = Inl RuntimeError"
proof -
  have "fst (update_loop prices (positions e) 0 e) = Inl RuntimeError"
    using assms by (rule update_loop_raises)
  then show ?thesis
    by (cases "update_loop prices (positions e) 0 e") (simp add: update_positions_def)
qed

lemma dict_set_middle:
  "k \<notin> fst ` set xs \<Longrightarrow> dict_set k v (xs @ (k, w) # ys) = xs @ (k, v) # ys"
  by (induction xs) auto

lemma fst_refresh: "fst (refresh prices item) = fst item"
  by (simp add: refresh_def split: option.splits)

text \<open>
  When no position that has a price is beyond its stop or target, the loop runs to its
  end: the positions are repriced in place, none is removed, and the running total is
  the sum of the new unrealized pnls.
\<close>

lemma update_loop_no_cross:
  assumes "distinct (map fst (pre @ items))"
      and "positions e = map (refresh prices) pre @ items"
      and "\<forall>item \<in> set items. \<forall>p. prices (fst item) = Some p \<longrightarrow> \<not> crossed (reprice p (snd item))"
  shows "update_loop prices items tot e =
           (Inr (tot + priced_pnl prices items),
            e\<lparr>positions := map (refresh prices) (pre @ items)\<rparr>)"
  using assms
proof (induction items arbitrary: pre tot e)
  case Nil
  then show ?case by (simp add: priced_pnl_def)
next
  case (Cons it items)
  obtain s pos where it: "it = (s, pos)" by (cases it)
  have d: "distinct (map fst ((pre @ [it]) @ items))" using Cons.prems(1) by simp
  have rest: "\<forall>item \<in> set items. \<forall>p. prices (fst item) = Some p
                \<longrightarrow> \<not> crossed (reprice p (snd item))"
    using Cons.prems(3) by simp
  show ?case
  proof (cases "prices s")
    case None
    then have r: "refresh prices it = it" by (simp add: refresh_def it)
    have p: "positions e = map (refresh prices) (pre @ [it]) @ items"
      using Cons.prems(2) r by simp
    from Cons.IH [OF d p rest, of tot] None show ?thesis
      by (simp add: it priced_pnl_def)
  next
    case (Some p)
    let ?pos' = "reprice p pos"
    let ?e' = "e\<lparr>positions := dict_set s ?pos' (positions e)\<rparr>"
    have r: "refresh prices it = (s, ?pos')" using Some by (simp add: refresh_def it)
    have nc: "\<not> crossed ?pos'" using Cons.prems(3) Some by (simp add: it)
    have "s \<notin> fst ` set (map (refresh prices) pre)"
      using Cons.prems(1) by (auto simp: it fst_refresh image_image)
    then have "dict_set s ?pos' (map (refresh prices) pre @ (s, pos) # items)
                 = map (refresh prices) pre @ (s, ?pos') # items"
      by (rule dict_set_middle)
    then have p: "positions ?e' = map (refresh prices) (pre @ [it]) @ items"
      using Cons.prems(2) r by (simp add: it)
    from Cons.IH [OF d p rest, of "tot + unrealized_pnl ?pos'"] Some nc show ?thesis
      by (simp add: it priced_pnl_def Let_def)
  qed
qed

lemma update_positions_no_cross:
  assumes "distinct (dict_keys (positions e))"
      and "\<forall>item \<in> set (positions e). \<forall>p. prices (fst item) = Some p
             \<longrightarrow> \<not> crossed (reprice p (snd item))"
  shows "update_positions prices e =
           (Inr (),
            e\<lparr>positions := map (refresh prices) (positions e),
              paper_equity := paper_balance e + priced_pnl prices (positions e)\<rparr>)"
proof -
  have "update_loop prices (positions e) 0 e =
          (Inr (0 + priced_pnl prices (positions e)),
           e\<lparr>positions := map (refresh prices) ([] @ positions e)\<rparr>)"
    using assms by (intro update_loop_no_cross) (simp_all add: dict_keys_def)
  then show ?thesis by (simp add: update_positions_def)
qed

text \<open>
  C1 (the code departs from the claim). The claim: every call of \<open>update_positions\<close>
  recomputes the unrealized pnl of every open position that has a price, and closes
  every position whose price has crossed its stop or target, realizing its pnl and
  removing it. The code on two long positions that are both beyond their targets: the
  first is closed and its pnl of 30 is realized, then the call raises \<open>RuntimeError\<close>;
  the second position is still in the map, with its old current price and an unrealized
  pnl of 0.
\<close>

theorem update_positions_two_crossing:
  "update_positions both_above_target engine_two =
     (Inl RuntimeError,
      engine_two\<lparr>positions := [(''GBPUSD'', long_position ''GBPUSD'' 1.30)],
                 paper_balance := 10030, paper_equity := 10030\<rparr>)"
  by (simp add: update_positions_def both_above_target_def engine_two_def initial_engine_def
      long_position_def reprice_def crossed_def close_position_def Let_def)

text \<open>
  C9. When a paper order fills into a symbol that already has a position, the position
  afterwards has the entry price \<open>(old entry + fill price) / 2\<close>, whatever the two
  quantities are, the sum of both quantities, and the side, stop and target it had
  before; the side, stop and target of the order are not used.
\<close>

theorem paper_fill_merges_into_existing:
  assumes "map_of (positions e) (ord_symbol ordr) = Some pos"
  shows "\<exists>pos'. map_of (positions (snd (execute_paper_order slip now ordr e))) (ord_symbol ordr)
                  = Some pos'
           \<and> entry_price pos' = (entry_price pos + fill_price_of slip ordr) / 2
           \<and> quantity pos' = quantity pos + ord_quantity ordr
           \<and> side pos' = side pos
           \<and> stop_loss pos' = stop_loss pos
           \<and> take_profit pos' = take_profit pos"
  using assms by (simp add: execute_paper_order_def Let_def map_of_dict_set_same)

text \<open>
  The merge on a held long position of 1000 units entered at 1.10: a sell order of 500
  units at 1.2 that fills at 1.20012 leaves a long position of 1500 units entered at
  1.15006, with the stop and target of the first fill.
\<close>

theorem paper_fill_merges_into_existing_witness:
  "map_of (positions engine_one) (ord_symbol add_order) = Some (long_position ''EURUSD'' 1.10) \<and>
   (\<exists>pos'. map_of (positions (snd (execute_paper_order 1 7 add_order engine_one)))
              (ord_symbol add_order) = Some pos'
      \<and> entry_price pos' = 1.15006 \<and> quantity pos' = 1500 \<and> side pos' = ''BUY''
      \<and> stop_loss pos' = 1.09 \<and> take_profit pos' = 1.12)"
proof -
  have held: "map_of (positions engine_one) (ord_symbol add_order)
                = Some (long_position ''EURUSD'' 1.10)"
    by (simp add: engine_one_def add_order_def)
  from paper_fill_merges_into_existing [OF held, of 1 7] held show ?thesis
    by (simp add: long_position_def fill_price_of_def add_order_def)
qed

text \<open>
  A fill into a held symbol leaves the order of the symbols, the positions of the other
  symbols and the paper account as they were.
\<close>

lemma paper_fill_leaves_the_rest:
  assumes "map_of (positions e) (ord_symbol ordr) = Some pos"
  shows "dict_keys (positions (snd (execute_paper_order slip now ordr e)))
           = dict_keys (positions e)"
    and "s \<noteq> ord_symbol ordr \<Longrightarrow>
           map_of (positions (snd (execute_paper_order slip now ordr e))) s
             = map_of (positions e) s"
    and "paper_balance (snd (execute_paper_order slip now ordr e)) = paper_balance e"
    and "paper_equity (snd (execute_paper_order slip now ordr e)) = paper_equity e"
  using assms
  by (simp_all add: execute_paper_order_def Let_def dict_keys_dict_set map_of_dict_set_other)

text \<open>
  C10. For a symbol with no open position, \<open>close_position\<close> returns \<open>None\<close> and the
  engine is the same afterwards: position map, paper balance, paper equity and trade
  history are untouched.
\<close>

theorem close_position_absent:
  assumes "s \<notin> set (dict_keys (positions e))"
  shows "close_position s price e = (None, e)"
proof -
  from assms have "map_of (positions e) s = None"
    by (simp add: dict_keys_def map_of_eq_None_iff)
  then show ?thesis by (simp add: close_position_def)
qed

theorem close_position_absent_witness:
  "''USDJPY'' \<notin> set (dict_keys (positions engine_two)) \<and>
   close_position ''USDJPY'' 150 engine_two = (None, engine_two)"
proof -
  have absent: "''USDJPY'' \<notin> set (dict_keys (positions engine_two))"
    by (simp add: engine_two_def dict_keys_def)
  from close_position_absent [OF absent, of 150] absent show ?thesis by simp
qed

section \<open>Probability estimator\<close>

text \<open>
  C2 (the code departs from the claim). The claim: for every symbol and feature
  dictionary the estimator returns, without raising, a number in [0, 1]. The code: for
  every symbol and every feature dictionary \<open>predict_probability\<close> raises
  \<open>UnboundLocalError\<close>, because \<open>prob\<close> is read before any assignment on each path
  through the function.
\<close>

theorem predict_probability_raises:
  "predict_probability sy features = Inl UnboundLocalError"
  by (simp add: predict_probability_def add_to_local_def read_local_def Let_def)

section \<open>Validation pipeline: advisory gate and short circuit\<close>

text \<open>
  The advisory service answers with the fixed HOLD advice of confidence 0 when its
  ready flag is down, and also when its model is not among the loaded models before
  and after a health re-check.
\<close>

lemma validate_signal_not_ready:
  assumes "\<not> ollama_ready ag \<or>
           (model ag \<notin> set (loaded_models ag) \<and>
            model ag \<notin> set (loaded_models (check_ollama_health pr ag)))"
  shows "fst (validate_signal pr reply ag) \<in> range hold"
  using assms
  by (auto simp: validate_signal_def Let_def check_ollama_health_def split: probe.splits)

lemma analyze_market_hold:
  assumes "sig_direction sg \<noteq> ''NEUTRAL''"
      and "\<not> sig_confidence sg < quant_confidence st / 100"
      and "\<not> sig_risk_reward sg < risk_reward_min st - 0.01"
      and "fst (validate_signal (health_probe env) (llm env) ag) \<in> range hold"
  shows "analyze_market_with est st env ag sy (Some sg) =
           (Rejected ADVISOR_CHECK,
            [Broadcast ''QUANT'', Broadcast ''BRAIN'', AdvisorCall, Broadcast ''BRAIN''],
            snd (validate_signal (health_probe env) (llm env) ag))"
proof (cases "validate_signal (health_probe env) (llm env) ag")
  case (Pair adv ag')
  with assms(4) obtain why where "adv = hold why" by auto
  with Pair assms(1-3) show ?thesis
    by (simp add: analyze_market_with_def Let_def hold_def)
qed

text \<open>
  C3. A signal that reaches the advisory stage (it is not neutral, and passes the
  confidence and the risk:reward checks) while the advisory service is not ready is
  rejected at ADVISOR_CHECK, whatever its score or confidence, and no order is handed
  to the execution engine. Not ready: the ready flag is down, or the configured model is
  not loaded and a health re-check does not find it either. This holds for every
  probability estimator, so in particular for the pipeline as the code runs it.
\<close>

theorem advisor_not_ready_rejects:
  assumes "sig_direction sg \<noteq> ''NEUTRAL''"
      and "\<not> sig_confidence sg < quant_confidence st / 100"
      and "\<not> sig_risk_reward sg < risk_reward_min st - 0.01"
      and "\<not> ollama_ready ag \<or>
           (model ag \<notin> set (loaded_models ag) \<and>
            model ag \<notin> set (loaded_models (check_ollama_health (health_probe env) ag)))"
  shows "fst (analyze_market_with est st env ag sy (Some sg)) = Rejected ADVISOR_CHECK \<and>
         OrderPlaced \<notin> set (fst (snd (analyze_market_with est st env ag sy (Some sg))))"
proof -
  have "fst (validate_signal (health_probe env) (llm env) ag) \<in> range hold"
    using assms(4) by (rule validate_signal_not_ready)
  with assms(1-3) show ?thesis
    by (simp add: analyze_market_hold)
qed

text \<open>
  A BUY signal of confidence 1 and risk:reward 1.5 under the default settings, in a
  market whose advisor would approve, with the service down.
\<close>

theorem advisor_not_ready_rejects_witness:
  "sig_direction strong_signal \<noteq> ''NEUTRAL'' \<and>
   \<not> sig_confidence strong_signal < quant_confidence default_settings / 100 \<and>
   \<not> sig_risk_reward strong_signal < risk_reward_min default_settings - 0.01 \<and>
   \<not> ollama_ready offline_agent \<and>
   fst (analyze_market default_settings approving_market offline_agent ''EURUSD''
          (Some strong_signal)) = Rejected ADVISOR_CHECK \<and>
   OrderPlaced \<notin> set (fst (snd (analyze_market default_settings approving_market
                                    offline_agent ''EURUSD'' (Some strong_signal))))"
proof -
  have h1: "sig_direction strong_signal \<noteq> ''NEUTRAL''"
    by (simp add: strong_signal_def)
  have h2: "\<not> sig_confidence strong_signal < quant_confidence default_settings / 100"
    by (simp add: strong_signal_def default_settings_def)
  have h3: "\<not> sig_risk_reward strong_signal < risk_reward_min default_settings - 0.01"
    by (simp add: strong_signal_def default_settings_def)
  have h4: "\<not> ollama_ready offline_agent"
    by (simp add: offline_agent_def)
  have h4': "\<not> ollama_ready offline_agent \<or>
           (model offline_agent \<notin> set (loaded_models offline_agent) \<and>
            model offline_agent \<notin> set (loaded_models
               (check_ollama_health (health_probe approving_market) offline_agent)))"
    using h4 by simp
  from advisor_not_ready_rejects [OF h1 h2 h3 h4', of predict_probability "''EURUSD''"]
       h1 h2 h3 h4
  show ?thesis by (simp add: analyze_market_def)
qed

text \<open>The sizing and execution step never ends in a rejection.\<close>

lemma execute_trade_not_rejected: "fst (execute_trade sy sg lots) \<noteq> Rejected s"
  by (simp add: execute_trade_def bind_keywords_def split: sum.splits)

lemma sizing_stage_not_rejected: "fst (sizing_stage st env sy sg t) \<noteq> Rejected s"
proof (cases "account_balance env")
  case None
  then show ?thesis by (simp add: sizing_stage_def Let_def)
next
  case (Some b)
  show ?thesis
  proof (cases "account_equity env")
    case None
    with Some show ?thesis by (simp add: sizing_stage_def Let_def)
  next
    case (Some q)
    with \<open>account_balance env = Some b\<close> show ?thesis
      using execute_trade_not_rejected
      by (simp add: sizing_stage_def Let_def split: prod.splits) (metis fst_conv)
  qed
qed

text \<open>
  Stage by stage, from the last one backwards: when a stage or a later one rejects, every
  event recorded up to the rejection is a log line or a call that belongs to a stage not
  after the rejecting one.
\<close>

lemma liquidity_stage_rank:
  assumes "liquidity_stage st env sy sg t = (Rejected s, t')"
      and "\<forall>ev \<in> set t. call_rank ev \<le> 6"
  shows "\<forall>ev \<in> set t'. call_rank ev \<le> stage_rank s"
  using assms
    sizing_stage_not_rejected
      [of st env sy sg "t @ [Broadcast ''RISK'', LivePriceCall, Broadcast ''RISK'']" s]
  by (auto simp: liquidity_stage_def Let_def split: if_splits)

lemma news_stage_rank:
  assumes "news_stage st env sy sg t = (Rejected s, t')"
      and "\<forall>ev \<in> set t. call_rank ev \<le> 5"
  shows "\<forall>ev \<in> set t'. call_rank ev \<le> stage_rank s"
proof (cases "news_stop env")
  case True
  with assms show ?thesis by (auto simp: news_stage_def Let_def split: if_splits)
next
  case False
  with assms(1)
  have "liquidity_stage st env sy sg (t @ [Broadcast ''NEWS'', NewsCall, Broadcast ''NEWS''])
          = (Rejected s, t')"
    by (simp add: news_stage_def Let_def)
  moreover from assms(2)
  have "\<forall>ev \<in> set (t @ [Broadcast ''NEWS'', NewsCall, Broadcast ''NEWS'']). call_rank ev \<le> 6"
    by auto
  ultimately show ?thesis by (rule liquidity_stage_rank)
qed

lemma probability_stage_rank:
  assumes "probability_stage est st env sy sg c t = (Rejected s, t')"
      and "\<forall>ev \<in> set t. call_rank ev \<le> 4"
  shows "\<forall>ev \<in> set t'. call_rank ev \<le> stage_rank s"
proof (cases "est sy [''hour'' \<mapsto> hour env, ''volatility'' \<mapsto> volatility env]")
  case (Inl err)
  with assms(1) show ?thesis by (simp add: probability_stage_def Let_def)
next
  case (Inr p)
  let ?prob = "if c > 0.8 then min 0.95 (p + 0.05) else p"
  show ?thesis
  proof (cases "?prob < ml_threshold st / 100")
    case True
    with Inr assms show ?thesis by (auto simp: probability_stage_def Let_def)
  next
    case False
    with Inr assms(1)
    have "news_stage st env sy sg (t @ [ProbabilityCall, Broadcast ''ML'']) = (Rejected s, t')"
      by (simp add: probability_stage_def Let_def)
    moreover from assms(2)
    have "\<forall>ev \<in> set (t @ [ProbabilityCall, Broadcast ''ML'']). call_rank ev \<le> 5"
      by auto
    ultimately show ?thesis by (rule news_stage_rank)
  qed
qed

lemma analyze_market_rank:
  assumes "fst (analyze_market_with est st env ag sy sgo) = Rejected s"
      and "ev \<in> set (fst (snd (analyze_market_with est st env ag sy sgo)))"
  shows "call_rank ev \<le> stage_rank s"
proof (cases sgo)
  case None
  with assms show ?thesis by (simp add: analyze_market_with_def)
next
  case (Some sg)
  obtain adv ag' where v: "validate_signal (health_probe env) (llm env) ag = (adv, ag')"
    by (cases "validate_signal (health_probe env) (llm env) ag")
  let ?c = "case adv_confidence adv of None \<Rightarrow> 0 | Some c \<Rightarrow> c"
  let ?t = "[Broadcast ''QUANT'', Broadcast ''BRAIN'', AdvisorCall, Broadcast ''BRAIN'']"
  obtain res t2 where p: "probability_stage est st env sy sg ?c ?t = (res, t2)"
    by (cases "probability_stage est st env sy sg ?c ?t")
  have r: "res = Rejected s \<Longrightarrow> \<forall>ev \<in> set t2. call_rank ev \<le> stage_rank s"
    using probability_stage_rank [of est st env sy sg ?c ?t s t2] p by auto
  from assms Some v p r show ?thesis
    by (auto simp: analyze_market_with_def Let_def split: if_splits)
qed

text \<open>
  C4. The pipeline short-circuits in stage order. A signal whose confidence is below
  the configured minimum is rejected at CONFIDENCE_CHECK after two log lines, with no
  call of the advisory service and the agent untouched. More generally, whenever an
  evaluation is rejected at a stage, every call it has made belongs to that stage or an
  earlier one: no later stage has run. This holds for every probability estimator.
\<close>

theorem confidence_failure_short_circuits:
  "(sig_direction sg \<noteq> ''NEUTRAL'' \<and> sig_confidence sg < quant_confidence st / 100 \<longrightarrow>
      analyze_market_with est st env ag sy (Some sg) =
        (Rejected CONFIDENCE_CHECK, [Broadcast ''QUANT'', Broadcast ''QUANT''], ag) \<and>
      count_list (fst (snd (analyze_market_with est st env ag sy (Some sg)))) AdvisorCall = 0) \<and>
   (\<forall>s. fst (analyze_market_with est st env ag sy sgo) = Rejected s \<longrightarrow>
      (\<forall>ev \<in> set (fst (snd (analyze_market_with est st env ag sy sgo))).
         call_rank ev \<le> stage_rank s))"
proof (intro conjI impI allI ballI)
  assume a: "sig_direction sg \<noteq> ''NEUTRAL'' \<and> sig_confidence sg < quant_confidence st / 100"
  then show eq: "analyze_market_with est st env ag sy (Some sg) =
                   (Rejected CONFIDENCE_CHECK, [Broadcast ''QUANT'', Broadcast ''QUANT''], ag)"
    by (simp add: analyze_market_with_def Let_def)
  show "count_list (fst (snd (analyze_market_with est st env ag sy (Some sg)))) AdvisorCall = 0"
    by (simp add: eq)
next
  fix s ev
  assume "fst (analyze_market_with est st env ag sy sgo) = Rejected s"
     and "ev \<in> set (fst (snd (analyze_market_with est st env ag sy sgo)))"
  then show "call_rank ev \<le> stage_rank s" by (rule analyze_market_rank)
qed

text \<open>
  A signal of confidence 0.2 against the default minimum of 0.4, with the advisory
  service up and approving: the evaluation stops at the confidence check. The same
  market with a strong signal and the service down stops at the advisory stage, after
  one advisory call.
\<close>

theorem confidence_failure_short_circuits_witness:
  "sig_direction weak_signal \<noteq> ''NEUTRAL'' \<and>
   sig_confidence weak_signal < quant_confidence default_settings / 100 \<and>
   analyze_market default_settings approving_market online_agent ''EURUSD'' (Some weak_signal) =
     (Rejected CONFIDENCE_CHECK, [Broadcast ''QUANT'', Broadcast ''QUANT''], online_agent) \<and>
   count_list (fst (snd (analyze_market default_settings approving_market online_agent
                           ''EURUSD'' (Some weak_signal)))) AdvisorCall = 0 \<and>
   fst (analyze_market default_settings approving_market offline_agent ''EURUSD''
          (Some strong_signal)) = Rejected ADVISOR_CHECK \<and>
   fst (snd (analyze_market default_settings approving_market offline_agent ''EURUSD''
               (Some strong_signal))) =
     [Broadcast ''QUANT'', Broadcast ''BRAIN'', AdvisorCall, Broadcast ''BRAIN''] \<and>
   call_rank AdvisorCall \<le> stage_rank ADVISOR_CHECK"
proof -
  have h: "sig_direction weak_signal \<noteq> ''NEUTRAL'' \<and>
           sig_confidence weak_signal < quant_confidence default_settings / 100"
    by (simp add: weak_signal_def strong_signal_def default_settings_def)
  have r: "analyze_market default_settings approving_market offline_agent ''EURUSD''
             (Some strong_signal) =
           (Rejected ADVISOR_CHECK,
            [Broadcast ''QUANT'', Broadcast ''BRAIN'', AdvisorCall, Broadcast ''BRAIN''],
            offline_agent)"
    by (simp add: analyze_market_def analyze_market_with_def Let_def strong_signal_def
        default_settings_def offline_agent_def validate_signal_def hold_def)
  from confidence_failure_short_circuits
         [of weak_signal default_settings predict_probability approving_market online_agent
             "''EURUSD''" "Some weak_signal"]
       confidence_failure_short_circuits
         [of strong_signal default_settings predict_probability approving_market offline_agent
             "''EURUSD''" "Some strong_signal"]
       h r
  show ?thesis by (simp add: analyze_market_def)
qed

text \<open>
  With the estimator of the ML engine, no evaluation gets past the probability stage:
  it ends without a signal, in a rejection by one of the first three stages, or in the
  estimator's exception.
\<close>

lemma analyze_market_never_trades:
  "fst (analyze_market st env ag sy sgo) \<in>
     {NoSignal, Rejected CONFIDENCE_CHECK, Rejected RISK_REWARD_CHECK, Rejected ADVISOR_CHECK,
      AnalysisError UnboundLocalError}"
  by (auto simp: analyze_market_def analyze_market_with_def Let_def probability_stage_def
      predict_probability_def add_to_local_def read_local_def
      split: option.splits prod.splits)

section \<open>Position sizing\<close>

text \<open>Rounding to the nearest integer keeps integers and stays between integer bounds.\<close>

lemma py_round_cases:
  "py_round x = \<lfloor>x\<rfloor> \<or> (py_round x = \<lfloor>x\<rfloor> + 1 \<and> of_int \<lfloor>x\<rfloor> < x)"
  by (auto simp: py_round_def Let_def)

lemma py_round_of_int: "py_round (of_int n) = n"
  by (simp add: py_round_def)

lemma py_round_numeral: "py_round (numeral n) = numeral n"
  by (simp add: py_round_def)

lemma py_round_one: "py_round 1 = 1"
  by (simp add: py_round_def)

lemma py_round_tenth: "py_round (1 / 10) = 0"
  by (simp add: py_round_def)

lemma py_round_lower:
  assumes "of_int a \<le> x"
  shows "a \<le> py_round x"
proof -
  have "a \<le> \<lfloor>x\<rfloor>" using assms by (simp add: le_floor_iff)
  with py_round_cases [of x] show ?thesis by auto
qed

lemma py_round_upper:
  assumes "x \<le> of_int b"
  shows "py_round x \<le> b"
proof -
  from py_round_cases [of x] show ?thesis
  proof
    assume "py_round x = \<lfloor>x\<rfloor>"
    moreover have "\<lfloor>x\<rfloor> \<le> b" using assms by (simp add: floor_le_iff)
    ultimately show ?thesis by simp
  next
    assume h: "py_round x = \<lfloor>x\<rfloor> + 1 \<and> of_int \<lfloor>x\<rfloor> < x"
    then have "(of_int \<lfloor>x\<rfloor> :: real) < of_int b" using assms by linarith
    then have "\<lfloor>x\<rfloor> < b" by simp
    with h show ?thesis by simp
  qed
qed

text \<open>A whole number of steps of a whole number of hundredths has at most two decimals.\<close>

lemma py_round2_grid: "py_round2 (of_int k * (of_int c / 100)) = of_int k * (of_int c / 100)"
proof -
  have "of_int k * (of_int c / 100) * 100 = (of_int (k * c) :: real)" by simp
  then have "py_round (of_int k * (of_int c / 100) * 100) = k * c"
    by (simp only: py_round_of_int)
  then show ?thesis by (simp add: py_round2_def)
qed

lemma lot_size_default:
  assumes "account = None \<or> info = None \<or> entry = stop \<or>
           (\<exists>si. info = Some si \<and>
              (trade_tick_value si = 0 \<or> trade_tick_size si = 0 \<or> volume_step si = 0))"
  shows "calculate_lot_size st account info entry stop = base_lot"
  using assms
  by (auto simp: calculate_lot_size_def lot_size_body_def Let_def py_div_def
      split: option.splits sum.splits)

lemma lot_size_on_grid:
  assumes acc: "account = Some equity" and inf: "info = Some si"
      and dist: "entry \<noteq> stop"
      and tick: "trade_tick_value si \<noteq> 0" "trade_tick_size si \<noteq> 0"
      and c: "0 < c" and step: "volume_step si = of_int c / 100"
      and lo: "volume_min si = of_int a * volume_step si"
      and hi: "volume_max si = of_int b * volume_step si"
      and ab: "a \<le> b"
  shows "\<exists>k. a \<le> k \<and> k \<le> b \<and>
           calculate_lot_size st account info entry stop = of_int k * volume_step si"
proof -
  define lots where "lots = equity * (risk_per_trade st / 100) /
                             (\<bar>entry - stop\<bar> / trade_tick_size si * trade_tick_value si)"
  define lots1 where "lots1 = max (volume_min si) (min (volume_max si) lots)"
  define k where "k = py_round (lots1 / volume_step si)"
  have pos: "0 < volume_step si" using c step by simp
  have mm: "volume_min si \<le> volume_max si"
    using ab pos lo hi by (simp add: mult_right_mono)
  have l1: "volume_min si \<le> lots1" and l2: "lots1 \<le> volume_max si"
    using mm by (auto simp: lots1_def)
  have "of_int a \<le> lots1 / volume_step si"
    using l1 lo pos by (simp add: pos_le_divide_eq)
  then have ka: "a \<le> k" unfolding k_def by (rule py_round_lower)
  have "lots1 / volume_step si \<le> of_int b"
    using l2 hi pos by (simp add: pos_divide_le_eq)
  then have kb: "k \<le> b" unfolding k_def by (rule py_round_upper)
  have divisor: "\<bar>entry - stop\<bar> / trade_tick_size si * trade_tick_value si \<noteq> 0"
    using dist tick by simp
  have "lot_size_body st account info entry stop = Inr (py_round2 (of_int k * volume_step si))"
    using acc inf dist tick divisor pos
    by (simp add: lot_size_body_def Let_def py_div_def k_def lots1_def lots_def)
  then have "calculate_lot_size st account info entry stop
               = py_round2 (of_int k * volume_step si)"
    by (simp add: calculate_lot_size_def)
  also have "\<dots> = of_int k * volume_step si"
    unfolding step by (rule py_round2_grid)
  finally have "calculate_lot_size st account info entry stop = of_int k * volume_step si" .
  with ka kb show ?thesis by blast
qed

lemma execute_trade_nonpositive: "lots \<le> 0 \<Longrightarrow> execute_trade sy sg lots = (TradeSkipped, [])"
  by (simp add: execute_trade_def)

text \<open>
  For an instrument with a minimum and step of 0.001 lot, an equity of 100 and a stop
  0.1 away, the risk-based lot is clamped to the minimum 0.001, which is one step, and
  the final \<open>round(lots, 2)\<close> turns it into 0: below the instrument's minimum.
\<close>

theorem lot_size_below_minimum:
  "calculate_lot_size default_settings (Some 100) (Some fine_step_info) 1.1 1.0 = 0 \<and>
   calculate_lot_size default_settings (Some 100) (Some fine_step_info) 1.1 1.0
     < volume_min fine_step_info"
  by (simp add: calculate_lot_size_def lot_size_body_def default_settings_def
      fine_step_info_def py_div_def py_round2_def Let_def py_round_one py_round_tenth)

text \<open>
  C8 (amended). \<open>calculate_lot_size\<close> never raises: it is a total function whose
  exceptions are replaced by the base lot. It returns the base lot 0.01, which is not
  adjusted to the instrument, when the account or the symbol information is missing,
  when the stop distance is 0 (no division by zero), or when the tick value, tick size
  or volume step is 0. Otherwise, for an instrument whose step is a positive whole
  number of hundredths of a lot and whose minimum and maximum are whole multiples of
  the step with minimum \<open>\<le>\<close> maximum, the returned lot lies between the minimum and the
  maximum and is a whole multiple of the step. A final lot that is not positive makes
  \<open>_execute_trade\<close> return before any order is placed.
\<close>

theorem lot_size_default_or_normalized:
  "(account = None \<or> info = None \<or> entry = stop \<or>
      (\<exists>si. info = Some si \<and>
         (trade_tick_value si = 0 \<or> trade_tick_size si = 0 \<or> volume_step si = 0))
      \<longrightarrow> calculate_lot_size st account info entry stop = base_lot) \<and>
   (account = Some equity \<and> info = Some si \<and> entry \<noteq> stop \<and>
    trade_tick_value si \<noteq> 0 \<and> trade_tick_size si \<noteq> 0 \<and>
    0 < c \<and> volume_step si = of_int c / 100 \<and>
    volume_min si = of_int a * volume_step si \<and>
    volume_max si = of_int b * volume_step si \<and> a \<le> b
      \<longrightarrow> volume_min si \<le> calculate_lot_size st account info entry stop \<and>
          calculate_lot_size st account info entry stop \<le> volume_max si \<and>
          (\<exists>k. calculate_lot_size st account info entry stop = of_int k * volume_step si)) \<and>
   (lots \<le> 0 \<longrightarrow> execute_trade sy sg lots = (TradeSkipped, []))"
proof (intro conjI impI)
  assume "account = None \<or> info = None \<or> entry = stop \<or>
      (\<exists>si. info = Some si \<and>
         (trade_tick_value si = 0 \<or> trade_tick_size si = 0 \<or> volume_step si = 0))"
  then show "calculate_lot_size st account info entry stop = base_lot"
    by (rule lot_size_default)
next
  assume h: "account = Some equity \<and> info = Some si \<and> entry \<noteq> stop \<and>
    trade_tick_value si \<noteq> 0 \<and> trade_tick_size si \<noteq> 0 \<and>
    0 < c \<and> volume_step si = of_int c / 100 \<and>
    volume_min si = of_int a * volume_step si \<and>
    volume_max si = of_int b * volume_step si \<and> a \<le> b"
  then obtain k where k: "a \<le> k" "k \<le> b"
      "calculate_lot_size st account info entry stop = of_int k * volume_step si"
    using lot_size_on_grid [of account equity info si entry stop c a b st] by blast
  from h have pos: "0 < volume_step si" by simp
  show "volume_min si \<le> calculate_lot_size st account info entry stop"
    using h k pos by (simp add: mult_right_mono)
  show "calculate_lot_size st account info entry stop \<le> volume_max si"
    using h k pos by (simp add: mult_right_mono)
  show "\<exists>k. calculate_lot_size st account info entry stop = of_int k * volume_step si"
    using k by blast
next
  assume "lots \<le> 0"
  then show "execute_trade sy sg lots = (TradeSkipped, [])"
    by (rule execute_trade_nonpositive)
qed

text \<open>
  The standard instrument (steps of 0.01 lot between 0.01 and 100 lots) under the
  default settings with an equity of 10000: a stop distance of 0 gives the base lot, a
  stop 0.01 away gives 0.1 lot, within the bounds and ten steps; a lot of 0 is not sent.
\<close>

theorem lot_size_default_or_normalized_witness:
  "calculate_lot_size default_settings (Some 10000) (Some standard_info) 1.1 1.1 = base_lot \<and>
   trade_tick_value standard_info \<noteq> 0 \<and> trade_tick_size standard_info \<noteq> 0 \<and>
   volume_step standard_info = of_int 1 / 100 \<and>
   volume_min standard_info = of_int 1 * volume_step standard_info \<and>
   volume_max standard_info = of_int 10000 * volume_step standard_info \<and>
   volume_min standard_info
     \<le> calculate_lot_size default_settings (Some 10000) (Some standard_info) 1.1 1.09 \<and>
   calculate_lot_size default_settings (Some 10000) (Some standard_info) 1.1 1.09
     \<le> volume_max standard_info \<and>
   calculate_lot_size default_settings (Some 10000) (Some standard_info) 1.1 1.09
     = of_int 10 * volume_step standard_info \<and>
   execute_trade ''EURUSD'' strong_signal 0 = (TradeSkipped, [])"
proof -
  have grid: "trade_tick_value standard_info \<noteq> 0 \<and> trade_tick_size standard_info \<noteq> 0 \<and>
              (0::int) < 1 \<and> volume_step standard_info = of_int 1 / 100 \<and>
              volume_min standard_info = of_int 1 * volume_step standard_info \<and>
              volume_max standard_info = of_int 10000 * volume_step standard_info \<and>
              (1::int) \<le> 10000"
    by (simp add: standard_info_def)
  have ten_steps: "calculate_lot_size default_settings (Some 10000) (Some standard_info) 1.1 1.09
                 = of_int 10 * volume_step standard_info"
    by (simp add: calculate_lot_size_def lot_size_body_def default_settings_def
        standard_info_def py_div_def py_round2_def Let_def py_round_numeral)
  from lot_size_default_or_normalized
         [where account = "Some 10000" and info = "Some standard_info" and entry = "1.1"
            and stop = "1.1" and st = default_settings and equity = 10000
            and si = standard_info and c = 1 and a = 1 and b = 10000 and lots = 0
            and sy = "''EURUSD''" and sg = strong_signal]
       lot_size_default_or_normalized
         [where account = "Some 10000" and info = "Some standard_info" and entry = "1.1"
            and stop = "1.09" and st = default_settings and equity = 10000
            and si = standard_info and c = 1 and a = 1 and b = 10000 and lots = 0
            and sy = "''EURUSD''" and sg = strong_signal]
       grid ten_steps
  show ?thesis by simp
qed

section \<open>Relative strength index\<close>

lemma length_diff: "length (diff xs) = length xs - 1"
  by (induction xs rule: diff.induct) auto

lemma length_wilder: "length (wilder p prev xs) = length xs"
  by (induction xs arbitrary: prev) (auto simp: Let_def)

lemma length_smoothed: "length (smoothed p xs) = p + 1 + (length xs - p)"
  by (simp add: smoothed_def Let_def length_wilder)

lemma wilder_zero: "0 < p \<Longrightarrow> wilder p 0 (replicate n 0) = replicate n 0"
  by (induction n) (auto simp: Let_def)

lemma sum_list_zeros: "sum_list (replicate k (0::real)) = 0"
  by (induction k) auto

lemma smoothed_zero:
  assumes "0 < p"
  shows "smoothed p (replicate n 0) = replicate p 0 @ replicate (Suc (n - p)) 0"
proof -
  have "mean (take p (replicate n (0::real))) = 0"
    by (simp add: mean_def sum_list_zeros)
  then show ?thesis
    using assms by (simp add: smoothed_def Let_def wilder_zero)
qed

lemma replicate_split: "p \<le> n \<Longrightarrow> replicate p x @ replicate (n - p) x = replicate n x"
  by (simp add: replicate_add [symmetric])

lemma map_all_zero: "(\<forall>x \<in> set xs. f x = (0::real)) \<Longrightarrow> map f xs = replicate (length xs) 0"
  by (induction xs) auto

text \<open>
  With an average loss of 0 the code takes RS = 100, so the index is 100 - 100/101
  whatever the average gain is; with an average gain of 0 and a positive average loss
  it is 0.
\<close>

lemma map2_rsi_no_loss:
  "length gs = n \<Longrightarrow> map2 rsi_of gs (replicate n 0) = replicate n (100 - 100 / 101)"
  by (induction gs arbitrary: n) (auto simp: rsi_of_def)

lemma map2_rsi_no_gain:
  "(\<forall>l \<in> set ls. l \<noteq> 0) \<Longrightarrow>
     map2 rsi_of (replicate (length ls) 0) ls = replicate (length ls) 0"
  by (induction ls) (auto simp: rsi_of_def)

lemma sum_list_pos:
  "(\<forall>x \<in> set xs. (0::real) \<le> x) \<Longrightarrow> (\<exists>x \<in> set xs. 0 < x) \<Longrightarrow> 0 < sum_list xs"
proof (induction xs)
  case Nil
  then show ?case by simp
next
  case (Cons a xs)
  have nn: "0 \<le> sum_list xs" using Cons.prems(1) by (simp add: sum_list_nonneg)
  show ?case
  proof (cases "0 < a")
    case True
    with nn show ?thesis by simp
  next
    case False
    with Cons.prems have "\<exists>x \<in> set xs. 0 < x" by auto
    with Cons have "0 < sum_list xs" by simp
    moreover from Cons.prems(1) have "0 \<le> a" by simp
    ultimately show ?thesis by simp
  qed
qed

text \<open>With a period above 1 the smoothing never brings a positive average back to 0.\<close>

lemma wilder_pos:
  "1 < p \<Longrightarrow> 0 < prev \<Longrightarrow> (\<forall>x \<in> set xs. 0 \<le> x) \<Longrightarrow> \<forall>a \<in> set (wilder p prev xs). 0 < a"
proof (induction xs arbitrary: prev)
  case Nil
  then show ?case by simp
next
  case (Cons x xs)
  let ?a = "(prev * (real p - 1) + x) / real p"
  have "0 < prev * (real p - 1)" using Cons.prems by simp
  moreover have "0 \<le> x" using Cons.prems by simp
  ultimately have "0 < prev * (real p - 1) + x" by linarith
  then have a: "0 < ?a" using Cons.prems(1) by simp
  have "\<forall>a \<in> set (wilder p ?a xs). 0 < a"
    using Cons.IH [of ?a] Cons.prems a by simp
  with a show ?case by (simp add: Let_def)
qed

lemma rsi_no_loss:
  assumes "0 < p" "p < length data" "\<forall>d \<in> set (diff data). 0 \<le> d"
  shows "calculate_rsi data p = Value (replicate (length data) (100 - 100 / 101))"
proof -
  let ?gains = "map (\<lambda>d. if d > 0 then d else 0) (diff data)"
  let ?losses = "map (\<lambda>d. if d < 0 then - d else 0) (diff data)"
  have suc: "Suc (length (diff data) - p) = length data - p"
    using assms by (simp add: length_diff)
  have "?losses = replicate (length (diff data)) 0"
    using assms(3) by (intro map_all_zero) auto
  then have "smoothed p ?losses = replicate p 0 @ replicate (length data - p) 0"
    using assms(1) suc by (simp only: smoothed_zero)
  then have l: "smoothed p ?losses = replicate (length data) 0"
    using assms(2) by (simp only: replicate_split less_imp_le)
  have "length (smoothed p ?gains) = length data"
    using assms by (simp add: length_smoothed length_diff)
  then have "map2 rsi_of (smoothed p ?gains) (smoothed p ?losses)
               = replicate (length data) (100 - 100 / 101)"
    unfolding l by (rule map2_rsi_no_loss)
  then show ?thesis using assms by (simp add: calculate_rsi_def Let_def)
qed

lemma rsi_no_gain:
  assumes "1 < p" "p < length data" "\<forall>d \<in> set (diff data). d \<le> 0"
      and "\<exists>d \<in> set (take p (diff data)). d < 0"
  shows "calculate_rsi data p =
           Value (replicate p (100 - 100 / 101) @ replicate (length data - p) 0)"
proof -
  let ?gains = "map (\<lambda>d. if d > 0 then d else 0) (diff data)"
  let ?losses = "map (\<lambda>d. if d < 0 then - d else 0) (diff data)"
  let ?seed = "mean (take p ?losses)"
  let ?tail = "?seed # wilder p ?seed (drop p ?losses)"
  have p0: "0 < p" using assms(1) by simp
  have suc: "Suc (length (diff data) - p) = length data - p"
    using assms by (simp add: length_diff)
  have nonneg: "\<forall>x \<in> set ?losses. 0 \<le> x" by auto
  have "?gains = replicate (length (diff data)) 0"
    using assms(3) by (intro map_all_zero) auto
  then have g: "smoothed p ?gains = replicate p 0 @ replicate (length data - p) 0"
    using p0 suc by (simp only: smoothed_zero)
  have "\<forall>x \<in> set (take p ?losses). 0 \<le> x"
    using nonneg by (meson in_set_takeD)
  moreover have "\<exists>x \<in> set (take p ?losses). 0 < x"
  proof -
    from assms(4) obtain d where d: "d \<in> set (take p (diff data))" "d < 0" by blast
    from d(1) have "(\<lambda>d. if d < 0 then - d else 0) d \<in> set (take p ?losses)"
      unfolding take_map set_map by (rule imageI)
    with d(2) show ?thesis by force
  qed
  ultimately have "0 < sum_list (take p ?losses)" by (rule sum_list_pos)
  then have seed: "0 < ?seed" using assms by (simp add: mean_def length_diff)
  have "\<forall>x \<in> set (drop p ?losses). 0 \<le> x"
    using nonneg by (meson in_set_dropD)
  with assms(1) seed have "\<forall>a \<in> set (wilder p ?seed (drop p ?losses)). 0 < a"
    by (intro wilder_pos)
  with seed have tailpos: "\<forall>l \<in> set ?tail. l \<noteq> 0" by auto
  have tl: "length ?tail = length data - p"
    using assms by (simp add: length_wilder length_diff)
  have l: "smoothed p ?losses = replicate p 0 @ ?tail"
    by (simp add: smoothed_def Let_def)
  have "map2 rsi_of (smoothed p ?gains) (smoothed p ?losses)
          = map2 rsi_of (replicate p 0) (replicate p 0)
            @ map2 rsi_of (replicate (length ?tail) 0) ?tail"
    unfolding g l tl [symmetric] by simp
  also have "map2 rsi_of (replicate (length ?tail) 0) ?tail = replicate (length ?tail) 0"
    using tailpos by (rule map2_rsi_no_gain)
  also have "map2 rsi_of (replicate p 0) (replicate p 0) = replicate p (100 - 100 / 101)"
    by (rule map2_rsi_no_loss) simp
  finally have "map2 rsi_of (smoothed p ?gains) (smoothed p ?losses)
                  = replicate p (100 - 100 / 101) @ replicate (length data - p) 0"
    unfolding tl .
  then show ?thesis using assms by (simp add: calculate_rsi_def Let_def)
qed

text \<open>
  On a rising and on a constant series of four points with period 2, every entry of the
  computed index is 100 - 100/101 = 10000/101: neither 100 for the rising series, nor 0
  for the constant one, whose deltas are all non-positive.
\<close>

theorem rsi_not_100_counterexample:
  "calculate_rsi [1, 2, 3, 4] 2 = Value [10000 / 101, 10000 / 101, 10000 / 101, 10000 / 101] \<and>
   calculate_rsi [5, 5, 5, 5] 2 = Value [10000 / 101, 10000 / 101, 10000 / 101, 10000 / 101] \<and>
   (10000 / 101 :: real) \<noteq> 100 \<and> (10000 / 101 :: real) \<noteq> 0"
  by (simp add: calculate_rsi_def smoothed_def mean_def rsi_of_def Let_def eval_nat_numeral)

text \<open>
  C6 (amended). For a series longer than the period (period at least 1): when all
  deltas are non-negative, the average loss is 0 everywhere, the code takes RS = 100 and
  every entry of the index is 100 - 100/101 (about 99.01), not 100. When all deltas are
  non-positive, the period is at least 2 and one of the first \<open>period\<close> deltas is
  negative, the index is 0 at every position from \<open>period\<close> on (the positions before it
  hold 100 - 100/101).
\<close>

theorem rsi_extremes:
  assumes "0 < p" and "p < length data"
  shows "((\<forall>d \<in> set (diff data). 0 \<le> d) \<longrightarrow>
            calculate_rsi data p = Value (replicate (length data) (100 - 100 / 101))) \<and>
         ((\<forall>d \<in> set (diff data). d \<le> 0) \<and> 1 < p \<and> (\<exists>d \<in> set (take p (diff data)). d < 0) \<longrightarrow>
            calculate_rsi data p =
              Value (replicate p (100 - 100 / 101) @ replicate (length data - p) 0))"
  using assms rsi_no_loss [of p data] rsi_no_gain [of p data] by blast

theorem rsi_extremes_witness:
  "calculate_rsi [1, 2, 3, 4] 2
     = Value [100 - 100 / 101, 100 - 100 / 101, 100 - 100 / 101, 100 - 100 / 101] \<and>
   calculate_rsi [4, 3, 2, 1] 2 = Value [100 - 100 / 101, 100 - 100 / 101, 0, 0]"
  using rsi_extremes [of 2 "[1, 2, 3, 4]"] rsi_extremes [of 2 "[4, 3, 2, 1]"]
  by (simp add: eval_nat_numeral)

section \<open>Average true range on a market that does not move\<close>

lemma true_range_flat: "true_range (replicate n (c, c, c)) = replicate (n - 1) 0"
proof (induction n)
  case 0
  then show ?case by simp
next
  case (Suc n)
  then show ?case by (cases n) auto
qed

text \<open>
  When high, low and close of every bar are the same price, every entry of the ATR is
  0; the signal generator then works with \<open>atr_current = 0\<close>.
\<close>

lemma calculate_atr_flat:
  assumes "0 < p" and "p < n"
  shows "calculate_atr (replicate n (c, c, c)) p = Value (replicate n 0)"
proof -
  have "smoothed p (true_range (replicate n (c, c, c)))
          = replicate p 0 @ replicate (Suc (n - 1 - p)) 0"
    using assms(1) by (simp only: true_range_flat smoothed_zero)
  also have "Suc (n - 1 - p) = n - p" using assms by simp
  finally have "smoothed p (true_range (replicate n (c, c, c))) = replicate n 0"
    using assms(2) by (simp only: replicate_split less_imp_le)
  then show ?thesis using assms by (simp add: calculate_atr_def)
qed

text \<open>
  On the same market the RSI is 100 - 100/101 at every position, above the overbought
  level 70 (a bearish RSI score), and the last close does not exceed the volume-weighted
  average of equal prices (a bearish VWAP score).
\<close>

lemma diff_flat: "diff (replicate n c) = replicate (n - 1) 0"
proof (induction n)
  case 0
  then show ?case by simp
next
  case (Suc n)
  then show ?case by (cases n) auto
qed

lemma calculate_rsi_flat:
  assumes "0 < p" and "p < n"
  shows "calculate_rsi (replicate n c) p = Value (replicate n (100 - 100 / 101))"
  using assms rsi_no_loss [of p "replicate n c"] by (simp add: diff_flat)

section \<open>Stop and target levels of an emitted signal\<close>

lemma sl_multiplier_pos: "0 < sl_multiplier rg"
  by (simp add: sl_multiplier_def)

lemma generate_signal_weak:
  "\<bar>ensemble_score sc\<bar> < 1 \<Longrightarrow> generate_signal st rg sc price atr dr rs = None"
  by (simp add: generate_signal_def)

lemma generate_signal_buy:
  assumes "\<not> \<bar>ensemble_score sc\<bar> < 1" and "ensemble_score sc > 0"
      and "generate_signal st rg sc price atr dr rs = Some sg"
  shows "sig_direction sg = ''BUY'' \<and> sig_entry_price sg = price \<and>
         sig_stop_loss sg = price - atr * sl_multiplier rg * entropy dr \<and>
         sig_take_profit_1 sg
           = price + atr * (sl_multiplier rg * target_risk_reward st * 0.75) * entropy dr \<and>
         sig_take_profit_2 sg
           = price + atr * (sl_multiplier rg * target_risk_reward st) * entropy dr \<and>
         sig_take_profit_3 sg
           = price + atr * (sl_multiplier rg * target_risk_reward st * 1.5) * entropy dr"
  using assms by (auto simp: generate_signal_def Let_def)

lemma generate_signal_sell:
  assumes "\<not> \<bar>ensemble_score sc\<bar> < 1" and "\<not> ensemble_score sc > 0"
      and "generate_signal st rg sc price atr dr rs = Some sg"
  shows "sig_direction sg = ''SELL'' \<and> sig_entry_price sg = price \<and>
         sig_stop_loss sg = price + atr * sl_multiplier rg * entropy dr \<and>
         sig_take_profit_1 sg
           = price - atr * (sl_multiplier rg * target_risk_reward st * 0.75) * entropy dr \<and>
         sig_take_profit_2 sg
           = price - atr * (sl_multiplier rg * target_risk_reward st) * entropy dr \<and>
         sig_take_profit_3 sg
           = price - atr * (sl_multiplier rg * target_risk_reward st * 1.5) * entropy dr"
  using assms by (auto simp: generate_signal_def Let_def)

text \<open>
  With bearish VWAP and RSI scores (total score -2) and an ATR of 0, the generator emits
  a SELL signal whose stop and three targets all equal the entry price.
\<close>

theorem signal_flat_market_degenerate:
  "generate_signal default_settings RANGING flat_scores 1.1 0 unit_draws [] =
     Some \<lparr>sig_direction = ''SELL'', sig_confidence = 0.4, sig_entry_price = 1.1,
           sig_stop_loss = 1.1, sig_take_profit_1 = 1.1, sig_take_profit_2 = 1.1,
           sig_take_profit_3 = 1.1, sig_risk_reward = 0, sig_strategy = ''Oversold Mean Revert'',
           sig_reasoning = [''Risk:Reward'', ''Strat: Oversold Mean Revert'']\<rparr>"
  by code_simp

text \<open>
  C5 (amended). For every signal the generator emits while the last ATR value is
  positive and the configured target risk:reward is positive (the entropy draw lies in
  [0.98, 1.02]): the direction is BUY or SELL; for BUY, stop_loss < entry_price <
  take_profit_1 \<open>\<le>\<close> take_profit_2 \<open>\<le>\<close> take_profit_3; for SELL, take_profit_3 \<open>\<le>\<close>
  take_profit_2 \<open>\<le>\<close> take_profit_1 < entry_price < stop_loss.
\<close>

theorem signal_levels_ordered:
  assumes sg: "generate_signal st rg sc price atr dr rs = Some sg"
      and atr: "0 < atr" and rr: "0 < target_risk_reward st"
      and e: "0.98 \<le> entropy dr" "entropy dr \<le> 1.02"
  shows "(sig_direction sg = ''BUY'' \<or> sig_direction sg = ''SELL'') \<and>
         (sig_direction sg = ''BUY'' \<longrightarrow>
            sig_stop_loss sg < sig_entry_price sg \<and>
            sig_entry_price sg < sig_take_profit_1 sg \<and>
            sig_take_profit_1 sg \<le> sig_take_profit_2 sg \<and>
            sig_take_profit_2 sg \<le> sig_take_profit_3 sg) \<and>
         (sig_direction sg = ''SELL'' \<longrightarrow>
            sig_take_profit_3 sg \<le> sig_take_profit_2 sg \<and>
            sig_take_profit_2 sg \<le> sig_take_profit_1 sg \<and>
            sig_take_profit_1 sg < sig_entry_price sg \<and>
            sig_entry_price sg < sig_stop_loss sg)"
proof -
  define r where "r = atr * sl_multiplier rg * entropy dr"
  define x where "x = atr * (sl_multiplier rg * target_risk_reward st) * entropy dr"
  have epos: "0 < entropy dr" using e(1) by simp
  have rpos: "0 < r" unfolding r_def using atr epos sl_multiplier_pos [of rg] by simp
  have xpos: "0 < x" unfolding x_def using atr epos rr sl_multiplier_pos [of rg] by simp
  have t1: "atr * (sl_multiplier rg * target_risk_reward st * 0.75) * entropy dr = 0.75 * x"
    by (simp add: x_def)
  have t3: "atr * (sl_multiplier rg * target_risk_reward st * 1.5) * entropy dr = 1.5 * x"
    by (simp add: x_def)
  have strong: "\<not> \<bar>ensemble_score sc\<bar> < 1"
    using sg generate_signal_weak [of sc st rg price atr dr rs] by auto
  show ?thesis
  proof (cases "ensemble_score sc > 0")
    case True
    from generate_signal_buy [OF strong True sg] rpos xpos show ?thesis
      unfolding t1 t3 r_def [symmetric] x_def [symmetric] by simp
  next
    case False
    from generate_signal_sell [OF strong False sg] rpos xpos show ?thesis
      unfolding t1 t3 r_def [symmetric] x_def [symmetric] by simp
  qed
qed

text \<open>
  An uptrend above the VWAP (total score 3) in a weakly trending market at 1.1 with an
  ATR of 0.001 under the default settings: a BUY signal with stop 1.098 and targets
  1.10225, 1.103 and 1.1045.
\<close>

theorem signal_levels_ordered_witness:
  "generate_signal default_settings TRENDING_WEAK up_scores 1.1 0.001 unit_draws [] = Some up_signal \<and>
   (0::real) < 0.001 \<and> 0 < target_risk_reward default_settings \<and>
   0.98 \<le> entropy unit_draws \<and> entropy unit_draws \<le> 1.02 \<and>
   sig_direction up_signal = ''BUY'' \<and>
   sig_stop_loss up_signal < sig_entry_price up_signal \<and>
   sig_entry_price up_signal < sig_take_profit_1 up_signal \<and>
   sig_take_profit_1 up_signal \<le> sig_take_profit_2 up_signal \<and>
   sig_take_profit_2 up_signal \<le> sig_take_profit_3 up_signal"
proof -
  have emitted: "generate_signal default_settings TRENDING_WEAK up_scores 1.1 0.001 unit_draws []
                   = Some up_signal"
    by code_simp
  have atr: "(0::real) < 0.001" by simp
  have rr: "0 < target_risk_reward default_settings" by (simp add: default_settings_def)
  have e: "0.98 \<le> entropy unit_draws" "entropy unit_draws \<le> 1.02"
    by (simp_all add: unit_draws_def)
  have buy: "sig_direction up_signal = ''BUY''" by (simp add: up_signal_def)
  from signal_levels_ordered [OF emitted atr rr e] emitted atr rr e buy
  show ?thesis by simp
qed

section \<open>Backtest statistics: profit factor\<close>

lemma sum_list_neg:
  "(\<forall>x \<in> set xs. x < (0::real)) \<Longrightarrow> xs \<noteq> [] \<Longrightarrow> sum_list xs < 0"
proof (induction xs)
  case Nil
  then show ?case by simp
next
  case (Cons a xs)
  show ?case
  proof (cases "xs = []")
    case True
    with Cons.prems show ?thesis by simp
  next
    case False
    with Cons have "sum_list xs < 0" by simp
    moreover from Cons.prems have "a < 0" by simp
    ultimately show ?thesis by simp
  qed
qed

text \<open>
  One winning trade of pnl 100 and no losing trade: the reported profit factor is 100,
  not 0.
\<close>

theorem profit_factor_no_losses_counterexample:
  "profit_factor (calculate_results [closed_trade 100]) = 100 \<and>
   losing_trades (calculate_results [closed_trade 100]) = 0"
  by (simp add: calculate_results_def closed_trade_def Let_def)

text \<open>
  C7 (amended). The profit factor of the backtest results is gross profit divided by
  the absolute value of gross loss when at least one closed trade lost; when no trade
  lost, the divisor is taken as 1 and the profit factor is the gross profit itself
  (which is 0 only when no trade won either, in particular when there are no trades).
\<close>

theorem profit_factor_value:
  "profit_factor (calculate_results trades) =
     (if \<exists>t \<in> set trades. tr_pnl t < 0
      then gross_profit trades / \<bar>gross_loss trades\<bar>
      else gross_profit trades)"
proof (cases "trades = []")
  case True
  then show ?thesis by (simp add: calculate_results_def gross_profit_def)
next
  case False
  let ?losses = "filter (\<lambda>p. p < 0) (map tr_pnl trades)"
  show ?thesis
  proof (cases "\<exists>t \<in> set trades. tr_pnl t < 0")
    case True
    then have ne: "?losses \<noteq> []" by (auto simp: filter_empty_conv)
    then have "sum_list ?losses < 0" by (intro sum_list_neg) auto
    then have "0 < \<bar>sum_list ?losses\<bar>" by simp
    with True False ne show ?thesis
      by (simp add: calculate_results_def Let_def gross_profit_def gross_loss_def)
  next
    case F: False
    then have "?losses = []" by (auto simp: filter_empty_conv)
    with F False show ?thesis
      by (simp add: calculate_results_def Let_def gross_profit_def)
  qed
qed

text \<open>
  Trades with pnls 100, -40 and 20 give the profit factor 120 / 40 = 3; without the
  losing trade the profit factor is the gross profit 120.
\<close>

theorem profit_factor_value_witness:
  "profit_factor (calculate_results [closed_trade 100, closed_trade (- 40), closed_trade 20]) = 3 \<and>
   profit_factor (calculate_results [closed_trade 100, closed_trade 20]) = 120"
  using profit_factor_value [of "[closed_trade 100, closed_trade (- 40), closed_trade 20]"]
        profit_factor_value [of "[closed_trade 100, closed_trade 20]"]
  by (simp add: gross_profit_def gross_loss_def closed_trade_def)

end
